theory Spec2Isabelle
  imports Main
begin

section \<open>JavaScript values reaching the message listener\<close>

text \<open>
  The payload of a browser message event is untyped at run time: the listener of
  \<^verbatim>\<open>FacebookSignUp.vue\<close> takes \<^verbatim>\<open>event.data\<close> either as a string to be parsed or as an
  already structured value. The values are modelled as a datatype; \<open>JUndefined\<close> is
  JavaScript's \<^verbatim>\<open>undefined\<close>, which is also what reading a missing property yields.
\<close>

datatype jsval =
    JUndefined
  | JNull
  | JBool bool
  | JNum int
  | JStr string
  | JArr "jsval list"
  | JObj "(string \<times> jsval) list"

text \<open>
  Property access \<^verbatim>\<open>v.name\<close>. Reading a property of \<^verbatim>\<open>undefined\<close> or \<^verbatim>\<open>null\<close> throws a
  TypeError (the result \<open>None\<close>); primitives and arrays have none of the property names
  the listener reads, so the access yields \<^verbatim>\<open>undefined\<close>.
\<close>

fun get_prop :: "jsval \<Rightarrow> string \<Rightarrow> jsval option" where
  "get_prop JUndefined name = None"
| "get_prop JNull name = None"
| "get_prop (JObj kvs) name =
     (case map_of kvs name of None \<Rightarrow> Some JUndefined | Some v \<Rightarrow> Some v)"
| "get_prop v name = Some JUndefined"

section \<open>The SDK loader (use-facebook-sdk-v2.ts)\<close>

subsection \<open>Data\<close>

text \<open>\<^verbatim>\<open>FacebookSDKOptions\<close>: every option may be left out.\<close>

record FacebookSDKOptions =
  opt_appId :: "string option"
  opt_version :: "string option"
  opt_xfbml :: "bool option"
  opt_cookie :: "bool option"
  opt_debug :: "bool option"

text \<open>\<^verbatim>\<open>FacebookInitParams\<close>, the argument of \<^verbatim>\<open>FB.init\<close>.\<close>

record FacebookInitParams =
  appId :: string
  version :: string
  xfbml :: bool
  cookie :: bool

text \<open>
  The local constants that one call of \<^verbatim>\<open>useFacebookSDK(options)\<close> destructures and that
  its inner functions close over.
\<close>

record config = FacebookInitParams +
  debug :: bool

definition init_args :: "config \<Rightarrow> FacebookInitParams" where
  "init_args cfg =
     \<lparr>appId = appId cfg, version = version cfg, xfbml = xfbml cfg, cookie = cookie cfg\<rparr>"

text \<open>
  The destructuring with defaults; \<open>dev\<close> is \<^verbatim>\<open>import.meta.env.DEV\<close>. A missing \<^verbatim>\<open>appId\<close>
  becomes the empty string.
\<close>

definition useFacebookSDK :: "bool \<Rightarrow> FacebookSDKOptions \<Rightarrow> config" where
  "useFacebookSDK dev options =
     \<lparr>appId = (case opt_appId options of None \<Rightarrow> [] | Some a \<Rightarrow> a),
      version = (case opt_version options of None \<Rightarrow> ''v21.0'' | Some v \<Rightarrow> v),
      xfbml = (case opt_xfbml options of None \<Rightarrow> False | Some b \<Rightarrow> b),
      cookie = (case opt_cookie options of None \<Rightarrow> False | Some b \<Rightarrow> b),
      debug = (case opt_debug options of None \<Rightarrow> dev | Some b \<Rightarrow> b)\<rparr>"

text \<open>
  The SDK object \<^verbatim>\<open>window.FB\<close>. Its \<^verbatim>\<open>init\<close> is the vendor's: it either returns or throws
  a value whose message is \<open>init_throws\<close>.
\<close>

record FacebookStatic =
  fb_ident :: nat
  init_throws :: "string option"

text \<open>A script element of the document.\<close>

record script_el =
  el_id :: string
  el_src :: string
  el_async :: bool
  el_defer :: bool
  el_crossOrigin :: string

datatype load_error =
    ScriptLoadError string
  | MissingIdentity
  | InitTimeout
  | InitException string

text \<open>The message of the Error each failure constructs.\<close>

fun error_message :: "load_error \<Rightarrow> string" where
  "error_message (ScriptLoadError src) = ''[useFacebookSDK] Failed to load SDK from '' @ src"
| "error_message MissingIdentity =
     ''[useFacebookSDK] No App ID provided. '' @
     ''Pass `appId` to useFacebookSDK() or set VITE_META_APP_ID in your .env file.''"
| "error_message InitTimeout =
     ''[useFacebookSDK] Timed out waiting for fbAsyncInit. '' @
     ''Check that connect.facebook.net is not blocked.''"
| "error_message (InitException msg) = ''[useFacebookSDK] FB.init() threw: '' @ msg"

text \<open>
  A value of \<^verbatim>\<open>window.fbAsyncInit\<close>: nothing, a function some other code installed, or
  the closure \<^verbatim>\<open>_initSDK\<close> installs for load operation \<open>k\<close>, which holds the arguments for
  \<^verbatim>\<open>FB.init\<close> and the hook it found installed (\<^verbatim>\<open>previousInit\<close>).
\<close>

datatype hook =
    NoHook
  | Foreign nat
  | Installed nat FacebookInitParams hook

text \<open>
  Where one run of the async arrow function inside \<^verbatim>\<open>loadSDK\<close> (a load operation) stands.
  \<open>InjectPending\<close>: suspended at \<^verbatim>\<open>await _injectScript()\<close>, the script's load or error event
  outstanding. \<open>InjectDone r\<close>: that promise is settled (\<open>r\<close> the rejection, if any) and the
  continuation is queued as a microtask. \<open>InitPending\<close>: suspended at \<^verbatim>\<open>await _initSDK()\<close>, hook
  and timer outstanding. \<open>InitDone r\<close>: that promise is settled, continuation queued.
  \<open>Resolved\<close> and \<open>Rejected\<close>: the operation's own promise is settled.
\<close>

datatype stage =
    NoOp
  | InjectPending config
  | InjectDone config "load_error option"
  | InitPending
  | InitDone "load_error option"
  | Resolved
  | Rejected load_error

text \<open>Effects on the outside world that the state does not show otherwise.\<close>

datatype sdk_effect =
    InsertScript script_el
  | FBInit FacebookInitParams
  | ForeignHookCall nat

text \<open>
  The module-level singletons (\<^verbatim>\<open>_FB\<close>, \<^verbatim>\<open>_isReady\<close>, \<^verbatim>\<open>_isLoading\<close>, \<^verbatim>\<open>_error\<close>,
  \<^verbatim>\<open>_loadPromise\<close>), the globals the module reads and writes (the document's script
  elements in document order, \<^verbatim>\<open>window.FB\<close>, \<^verbatim>\<open>window.fbAsyncInit\<close>), and the load operations:
  operation \<open>k\<close> has the stage \<open>stage s k\<close>, the local \<^verbatim>\<open>settled\<close> of its \<^verbatim>\<open>_initSDK\<close> call is
  \<open>settled s k\<close>, and its timer is armed while \<open>timer s k\<close>. \<open>micro\<close> is the microtask queue:
  the operations whose continuation is ready to run, first in first out. The document is
  represented by its script elements; an element of another kind that carries the SDK's id
  is not represented.
\<close>

record sdk_state =
  FB :: "FacebookStatic option"
  isReady :: bool
  isLoading :: bool
  error :: "load_error option"
  loadPromise :: "nat option"
  document :: "script_el list"
  window_FB :: "FacebookStatic option"
  window_fbAsyncInit :: hook
  next_op :: nat
  stage :: "nat \<Rightarrow> stage"
  settled :: "nat \<Rightarrow> bool"
  timer :: "nat \<Rightarrow> bool"
  micro :: "nat list"
  effects :: "sdk_effect list"

definition SDK_SCRIPT_ID :: string where
  "SDK_SCRIPT_ID = ''facebook-jssdk''"

definition SDK_URL :: string where
  "SDK_URL = ''https://connect.facebook.net/en_US/sdk.js''"

definition SDK_DEBUG_URL :: string where
  "SDK_DEBUG_URL = ''https://connect.facebook.net/en_US/sdk/debug.js''"

definition INIT_TIMEOUT_MS :: nat where
  "INIT_TIMEOUT_MS = 10000"

text \<open>The module as loaded, in a page whose script elements are \<open>doc\<close>.\<close>

definition initial_state :: "script_el list \<Rightarrow> sdk_state" where
  "initial_state doc =
     \<lparr>FB = None, isReady = False, isLoading = False, error = None, loadPromise = None,
      document = doc, window_FB = None, window_fbAsyncInit = NoHook, next_op = 0,
      stage = (\<lambda>k. NoOp), settled = (\<lambda>k. False), timer = (\<lambda>k. False), micro = [],
      effects = []\<rparr>"

subsection \<open>Script injection\<close>

definition getElementById :: "string \<Rightarrow> script_el list \<Rightarrow> script_el option" where
  "getElementById i doc = find (\<lambda>el. el_id el = i) doc"

text \<open>
  \<^verbatim>\<open>firstScript?.parentNode?.insertBefore(script, firstScript)\<close>: the new element goes in
  front of the document's first script element; a document without one is left alone.
\<close>

definition insertBefore_firstScript :: "script_el \<Rightarrow> script_el list \<Rightarrow> script_el list" where
  "insertBefore_firstScript script doc =
     (case doc of [] \<Rightarrow> [] | firstScript # rest \<Rightarrow> script # firstScript # rest)"

definition sdk_script :: "config \<Rightarrow> script_el" where
  "sdk_script cfg =
     \<lparr>el_id = SDK_SCRIPT_ID,
      el_src = (if debug cfg then SDK_DEBUG_URL else SDK_URL),
      el_async = True, el_defer = True, el_crossOrigin = ''anonymous''\<rparr>"

text \<open>
  \<^verbatim>\<open>await _injectScript()\<close> in operation \<open>k\<close>: with the tag in the document the promise is
  already resolved and the continuation is queued; otherwise the element is created and
  inserted, and the operation waits for its load or error event.
\<close>

definition injectScript :: "config \<Rightarrow> nat \<Rightarrow> sdk_state \<Rightarrow> sdk_state" where
  "injectScript cfg k s =
     (if getElementById SDK_SCRIPT_ID (document s) \<noteq> None then
        s\<lparr>stage := (stage s)(k := InjectDone cfg None), micro := micro s @ [k]\<rparr>
      else
        s\<lparr>document := insertBefore_firstScript (sdk_script cfg) (document s),
          stage := (stage s)(k := InjectPending cfg),
          effects := effects s @
            (if document s = [] then [] else [InsertScript (sdk_script cfg)])\<rparr>)"

text \<open>\<^verbatim>\<open>script.onload\<close> and \<^verbatim>\<open>script.onerror\<close> of the element operation \<open>k\<close> created.\<close>

definition script_onload :: "nat \<Rightarrow> sdk_state \<Rightarrow> sdk_state" where
  "script_onload k s =
     (case stage s k of
        InjectPending cfg \<Rightarrow>
          s\<lparr>stage := (stage s)(k := InjectDone cfg None), micro := micro s @ [k]\<rparr>
      | _ \<Rightarrow> s)"

definition script_onerror :: "nat \<Rightarrow> sdk_state \<Rightarrow> sdk_state" where
  "script_onerror k s =
     (case stage s k of
        InjectPending cfg \<Rightarrow>
          s\<lparr>stage := (stage s)(k := InjectDone cfg (Some (ScriptLoadError (el_src (sdk_script cfg))))),
            micro := micro s @ [k]\<rparr>
      | _ \<Rightarrow> s)"

subsection \<open>Initialisation\<close>

text \<open>\<^verbatim>\<open>_finalise\<close> (the \<^verbatim>\<open>console.info\<close> of the development build is not modelled).\<close>

definition finalise :: "sdk_state \<Rightarrow> sdk_state" where
  "finalise s = s\<lparr>FB := window_FB s, isReady := True, isLoading := False, error := None\<rparr>"

text \<open>
  \<^verbatim>\<open>resolve()\<close> (\<open>r = None\<close>) or \<^verbatim>\<open>reject(e)\<close> (\<open>r = Some e\<close>) of the promise \<^verbatim>\<open>_initSDK\<close> made
  for operation \<open>k\<close>: a promise settles once, and settling queues the continuation.
\<close>

definition settle_init :: "nat \<Rightarrow> load_error option \<Rightarrow> sdk_state \<Rightarrow> sdk_state" where
  "settle_init k r s =
     (if stage s k = InitPending then
        s\<lparr>stage := (stage s)(k := InitDone r), micro := micro s @ [k]\<rparr>
      else s)"

text \<open>
  The two \<^verbatim>\<open>if (!settled) { settled = true; clearTimeout(timeout); ... }\<close> blocks of the
  installed hook.
\<close>

definition hook_settle :: "nat \<Rightarrow> load_error option \<Rightarrow> sdk_state \<Rightarrow> sdk_state" where
  "hook_settle k r s =
     (if \<not> settled s k then
        settle_init k r (s\<lparr>settled := (settled s)(k := True), timer := (timer s)(k := False)\<rparr>)
      else s)"

text \<open>
  The message of the TypeError that reading \<^verbatim>\<open>init\<close> of an undefined \<^verbatim>\<open>window.FB\<close> throws.
  The wording is the engine's; nothing below depends on it.
\<close>

definition TypeError_message :: string where
  "TypeError_message = ''Cannot read properties of undefined (reading init)''"

text \<open>
  A call of the function stored in \<^verbatim>\<open>window.fbAsyncInit\<close>. The installed closure first calls
  the hook it replaced, then \<^verbatim>\<open>window.FB.init\<close> inside \<^verbatim>\<open>try\<close>: without \<^verbatim>\<open>window.FB\<close> the
  property access throws a TypeError. A foreign hook is taken to return without touching
  this module's state.
\<close>

fun run_hook :: "hook \<Rightarrow> sdk_state \<Rightarrow> sdk_state" where
  "run_hook NoHook s = s"
| "run_hook (Foreign n) s = s\<lparr>effects := effects s @ [ForeignHookCall n]\<rparr>"
| "run_hook (Installed k p previousInit) s =
     (let s1 = run_hook previousInit s in
      case window_FB s1 of
        None \<Rightarrow> hook_settle k (Some (InitException TypeError_message)) s1
      | Some fb \<Rightarrow>
          (let s2 = s1\<lparr>effects := effects s1 @ [FBInit p]\<rparr> in
           case init_throws fb of
             Some msg \<Rightarrow> hook_settle k (Some (InitException msg)) s2
           | None \<Rightarrow> hook_settle k None (finalise s2)))"

text \<open>The timer callback of operation \<open>k\<close>; a cleared timer never fires.\<close>

definition timeout_fires :: "nat \<Rightarrow> sdk_state \<Rightarrow> sdk_state" where
  "timeout_fires k s =
     (if timer s k then
        (let s1 = s\<lparr>timer := (timer s)(k := False)\<rparr> in
         if \<not> settled s1 k then
           settle_init k (Some InitTimeout) (s1\<lparr>settled := (settled s1)(k := True)\<rparr>)
         else s1)
      else s)"

text \<open>
  \<^verbatim>\<open>await _initSDK()\<close> in operation \<open>k\<close>. The three early exits settle the promise inside the
  executor, so the continuation is queued at once; otherwise the timer is armed and the
  hook installed over the one found.
\<close>

definition initSDK :: "config \<Rightarrow> nat \<Rightarrow> sdk_state \<Rightarrow> sdk_state" where
  "initSDK cfg k s =
     (if isReady s then
        s\<lparr>stage := (stage s)(k := InitDone None), micro := micro s @ [k]\<rparr>
      else if appId cfg = [] then
        s\<lparr>stage := (stage s)(k := InitDone (Some MissingIdentity)), micro := micro s @ [k]\<rparr>
      else if window_FB s \<noteq> None then
        (finalise s)\<lparr>stage := (stage s)(k := InitDone None), micro := micro s @ [k]\<rparr>
      else
        s\<lparr>stage := (stage s)(k := InitPending),
          settled := (settled s)(k := False),
          timer := (timer s)(k := True),
          window_fbAsyncInit := Installed k (init_args cfg) (window_fbAsyncInit s)\<rparr>)"

subsection \<open>loadSDK and resetSDK\<close>

text \<open>The \<^verbatim>\<open>catch\<close> block of the load operation \<open>k\<close>; rethrowing rejects its promise.\<close>

definition loadSDK_catch :: "nat \<Rightarrow> load_error \<Rightarrow> sdk_state \<Rightarrow> sdk_state" where
  "loadSDK_catch k err s =
     s\<lparr>isLoading := False, isReady := False, error := Some err, loadPromise := None,
       stage := (stage s)(k := Rejected err)\<rparr>"

text \<open>One microtask: the continuation of operation \<open>k\<close> after the \<^verbatim>\<open>await\<close> it is suspended at.\<close>

definition continue_op :: "nat \<Rightarrow> sdk_state \<Rightarrow> sdk_state" where
  "continue_op k s =
     (case stage s k of
        InjectDone cfg None \<Rightarrow> initSDK cfg k s
      | InjectDone cfg (Some err) \<Rightarrow> loadSDK_catch k err s
      | InitDone None \<Rightarrow> s\<lparr>stage := (stage s)(k := Resolved)\<rparr>
      | InitDone (Some err) \<Rightarrow> loadSDK_catch k err s
      | _ \<Rightarrow> s)"

text \<open>
  What a call of \<^verbatim>\<open>loadSDK\<close> returns: the promise of an async function, which is already
  resolved (\<open>Immediate\<close>) or takes the outcome of the load operation \<open>k\<close> it was given by
  \<^verbatim>\<open>return _loadPromise\<close> (\<open>Follows k\<close>).
\<close>

datatype returned = Immediate | Follows nat

datatype outcome = Pending | Fulfilled | Failed load_error

definition op_outcome :: "sdk_state \<Rightarrow> nat \<Rightarrow> outcome" where
  "op_outcome s k =
     (case stage s k of Resolved \<Rightarrow> Fulfilled | Rejected e \<Rightarrow> Failed e | _ \<Rightarrow> Pending)"

definition returned_outcome :: "sdk_state \<Rightarrow> returned \<Rightarrow> outcome" where
  "returned_outcome s r = (case r of Immediate \<Rightarrow> Fulfilled | Follows k \<Rightarrow> op_outcome s k)"

text \<open>
  The synchronous part of \<^verbatim>\<open>loadSDK\<close>: the async arrow function runs up to its first
  \<^verbatim>\<open>await\<close> before \<^verbatim>\<open>_loadPromise\<close> is assigned.
\<close>

definition loadSDK :: "config \<Rightarrow> sdk_state \<Rightarrow> returned \<times> sdk_state" where
  "loadSDK cfg s =
     (if isReady s then (Immediate, s)
      else
        (case loadPromise s of
           Some p \<Rightarrow> (Follows p, s)
         | None \<Rightarrow>
             (let s1 = s\<lparr>isLoading := True, error := None\<rparr>;
                  k = next_op s1;
                  s2 = injectScript cfg k (s1\<lparr>next_op := Suc k\<rparr>)
              in (Follows k, s2\<lparr>loadPromise := Some k\<rparr>))))"

text \<open>\<^verbatim>\<open>existing.remove()\<close> takes out the first element with the id.\<close>

fun remove_first :: "string \<Rightarrow> script_el list \<Rightarrow> script_el list" where
  "remove_first i [] = []"
| "remove_first i (el # els) = (if el_id el = i then els else el # remove_first i els)"

definition resetSDK :: "sdk_state \<Rightarrow> sdk_state" where
  "resetSDK s =
     s\<lparr>document := remove_first SDK_SCRIPT_ID (document s),
       FB := None, isReady := False, isLoading := False, error := None, loadPromise := None,
       window_FB := None, window_fbAsyncInit := NoHook\<rparr>"

subsection \<open>Microtasks, events and runs\<close>

text \<open>
  The microtask queue is run to exhaustion at the end of every task. An operation passes
  through at most two continuations, which bounds the loop: a queued operation counts two
  while its \<^verbatim>\<open>_initSDK\<close> call is still ahead and one otherwise.
\<close>

fun weight :: "stage \<Rightarrow> nat" where
  "weight (InjectDone cfg r) = 2"
| "weight st = 1"

definition queue_weight :: "sdk_state \<Rightarrow> nat" where
  "queue_weight s = sum_list (map (\<lambda>k. weight (stage s k)) (micro s))"

function drain :: "sdk_state \<Rightarrow> sdk_state" where
  "drain s = (case micro s of [] \<Rightarrow> s | k # q \<Rightarrow> drain (continue_op k (s\<lparr>micro := q\<rparr>)))"
  by pat_completeness auto
termination
proof (relation "measure queue_weight")
  show "wf (measure queue_weight)" by simp
next
  fix s :: sdk_state and k q
  assume queue: "micro s = k # q"
  let ?s = "s\<lparr>micro := q\<rparr>"
  let ?t = "continue_op k ?s"
  have pos: "0 < weight (stage s k)"
    by (cases "stage s k") auto
  have le: "weight (stage ?t j) \<le> weight (stage ?s j)" for j
    by (cases "j = k")
      (auto simp: continue_op_def initSDK_def loadSDK_catch_def finalise_def
        split: stage.splits option.splits)
  have mono: "sum_list (map f xs) \<le> sum_list (map g xs)"
    if "\<And>j. f j \<le> g j" for f g :: "nat \<Rightarrow> nat" and xs
    using that by (induction xs) (auto simp: add_mono)
  have rest: "sum_list (map (\<lambda>j. weight (stage ?t j)) q)
      \<le> sum_list (map (\<lambda>j. weight (stage s j)) q)"
    using mono [of "\<lambda>j. weight (stage ?t j)" "\<lambda>j. weight (stage ?s j)" q] le by simp
  have "micro ?t = q \<or> (micro ?t = q @ [k] \<and> weight (stage ?t k) < weight (stage s k))"
    by (auto simp: continue_op_def initSDK_def loadSDK_catch_def finalise_def
        split: stage.splits option.splits)
  then have "queue_weight ?t < queue_weight s"
    using rest pos queue by (auto simp: queue_weight_def)
  then show "(?t, s) \<in> measure queue_weight" by simp
qed

declare drain.simps [simp del]

text \<open>
  What can happen to the module. The two calls are the application's and run inside its
  current event-loop task; \<open>EndOfTask\<close> ends that task. The others are event-loop tasks of
  their own, started by the browser or the vendor script: the load and error events of the script element of
  operation \<open>k\<close>, the vendor script defining \<^verbatim>\<open>window.FB\<close>, a call of \<^verbatim>\<open>window.fbAsyncInit\<close>,
  and the timer of operation \<open>k\<close>. A task begins with an empty microtask queue and ends by
  emptying it.
\<close>

datatype event =
    CallLoadSDK config
  | CallResetSDK
  | EndOfTask
  | ScriptLoad nat
  | ScriptError nat
  | SdkDefinesFB FacebookStatic
  | FbAsyncInit
  | TimerFires nat

fun step :: "event \<Rightarrow> sdk_state \<Rightarrow> sdk_state" where
  "step (CallLoadSDK cfg) s = snd (loadSDK cfg s)"
| "step CallResetSDK s = resetSDK s"
| "step EndOfTask s = drain s"
| "step (ScriptLoad k) s = drain (script_onload k (drain s))"
| "step (ScriptError k) s = drain (script_onerror k (drain s))"
| "step (SdkDefinesFB fb) s = (drain s)\<lparr>window_FB := Some fb\<rparr>"
| "step FbAsyncInit s = drain (run_hook (window_fbAsyncInit (drain s)) (drain s))"
| "step (TimerFires k) s = drain (timeout_fires k (drain s))"

fun run :: "event list \<Rightarrow> sdk_state \<Rightarrow> sdk_state" where
  "run [] s = s"
| "run (e # es) s = run es (step e s)"

text \<open>The state invariant of the loader's data model.\<close>

definition idle :: "sdk_state \<Rightarrow> bool" where
  "idle s = (\<not> isLoading s \<and> \<not> isReady s)"

definition exactly_one :: "bool list \<Rightarrow> bool" where
  "exactly_one bs = (length (filter (\<lambda>b. b) bs) = 1)"

definition loader_inv :: "sdk_state \<Rightarrow> bool" where
  "loader_inv s =
     ((isReady s \<longrightarrow> FB s \<noteq> None \<and> error s = None)
      \<and> (isLoading s \<longrightarrow> \<not> isReady s)
      \<and> exactly_one [isLoading s, isReady s, idle s])"

text \<open>A load is in flight: not ready, and the cached operation is still pending.\<close>

definition in_flight :: "sdk_state \<Rightarrow> nat \<Rightarrow> bool" where
  "in_flight s k = (\<not> isReady s \<and> loadPromise s = Some k \<and> op_outcome s k = Pending)"


text \<open>
  Operation \<open>k\<close> exists, its promise is rejected with \<open>e\<close>, and the \<^verbatim>\<open>settled\<close> flag of its
  \<^verbatim>\<open>_initSDK\<close> call is set.
\<close>

definition rejected_for_good :: "nat \<Rightarrow> load_error \<Rightarrow> sdk_state \<Rightarrow> bool" where
  "rejected_for_good k e s = (k < next_op s \<and> stage s k = Rejected e \<and> settled s k)"






text \<open>Operation \<open>k\<close> exists and waits for the load or error event of its script element.\<close>

definition waiting :: "nat \<Rightarrow> config \<Rightarrow> sdk_state \<Rightarrow> bool" where
  "waiting k cfg s = (k < next_op s \<and> stage s k = InjectPending cfg)"

section \<open>The popup-flow launcher (FacebookSignUp.vue)\<close>

subsection \<open>Data\<close>

text \<open>The session buffer \<^verbatim>\<open>_sessionData\<close>; the empty object reads \<^verbatim>\<open>undefined\<close> in both fields.\<close>

record session_data =
  phone_number_id :: jsval
  waba_id :: jsval

definition empty_session :: session_data where
  "empty_session = \<lparr>phone_number_id = JUndefined, waba_id = JUndefined\<rparr>"

text \<open>\<^verbatim>\<open>FacebookAuthResponse\<close> and \<^verbatim>\<open>FacebookLoginResponse\<close> of the SDK's typed interface.\<close>

record auth_response =
  code :: "string option"
  accessToken :: "string option"
  userID :: string
  expiresIn :: int
  signedRequest :: string
  data_access_expiration_time :: "int option"

datatype login_status = Connected | Not_authorized | Unknown

record login_response =
  authResponse :: "auth_response option"
  status :: login_status

text \<open>The options object handed to \<^verbatim>\<open>FB.login\<close>.\<close>

record login_options =
  config_id :: "string option"
  response_type :: string
  override_default_response_type :: bool
  extras :: jsval

text \<open>The argument of the \<^verbatim>\<open>success\<close> event.\<close>

record success_payload =
  payload_code :: jsval
  wabaId :: jsval
  phoneNumberId :: jsval

text \<open>
  The three component events. \<open>Cancel None\<close> is \<^verbatim>\<open>emit('cancel')\<close> with no argument,
  \<open>Cancel (Some v)\<close> is \<^verbatim>\<open>emit('cancel', v)\<close>; \<open>Error\<close> carries the message of the Error.
\<close>

datatype emitted =
    Success success_payload
  | Cancel "jsval option"
  | Error string

text \<open>What the launcher does to the outside world, in order.\<close>

datatype effect =
    AddListener
  | RemoveListener
  | Login login_options
  | Emit emitted

text \<open>
  The component instance: the session buffer, whether \<^verbatim>\<open>_onMessage\<close> is registered on the
  window (registering the same function twice registers it once), and the effects so far.
\<close>

record launcher =
  sessionData :: session_data
  listening :: bool
  trace :: "effect list"

record props =
  configId :: "string option"
  buttonLabel :: string

definition WA_EMBEDDED_SIGNUP :: string where
  "WA_EMBEDDED_SIGNUP = ''WA_EMBEDDED_SIGNUP''"

definition emit :: "emitted \<Rightarrow> launcher \<Rightarrow> launcher" where
  "emit e l = l\<lparr>trace := trace l @ [Emit e]\<rparr>"

subsection \<open>The message listener\<close>

text \<open>
  \<^verbatim>\<open>typeof event.data === 'string' ? JSON.parse(event.data) : event.data\<close>. \<^verbatim>\<open>JSON.parse\<close>
  is the platform's; it is a parameter, \<open>None\<close> where it throws.
\<close>

definition payload_of :: "(string \<Rightarrow> jsval option) \<Rightarrow> jsval \<Rightarrow> jsval option" where
  "payload_of JSON_parse data =
     (case data of JStr txt \<Rightarrow> JSON_parse txt | v \<Rightarrow> Some v)"

text \<open>
  The statement \<^verbatim>\<open>if (payload.event === 'FINISH') { _sessionData = {...} }\<close>. The object
  literal is evaluated before the assignment, so a TypeError (\<open>None\<close>) leaves the buffer
  as it was.
\<close>

definition on_finish :: "jsval \<Rightarrow> launcher \<Rightarrow> launcher option" where
  "on_finish payload l =
     (if get_prop payload ''event'' = Some (JStr ''FINISH'') then
        (case get_prop payload ''data'' of
           None \<Rightarrow> None
         | Some d \<Rightarrow>
             (case get_prop d ''phone_number_id'' of
                None \<Rightarrow> None
              | Some p \<Rightarrow>
                  (case get_prop d ''waba_id'' of
                     None \<Rightarrow> None
                   | Some w \<Rightarrow>
                       Some (l\<lparr>sessionData := \<lparr>phone_number_id = p, waba_id = w\<rparr>\<rparr>))))
      else Some l)"

text \<open>
  The statement \<^verbatim>\<open>if (payload.event === 'CANCEL' || payload.event === 'ERROR')
  emit('cancel', payload.data.current_step)\<close>; the argument is evaluated before the call.
\<close>

definition on_cancel :: "jsval \<Rightarrow> launcher \<Rightarrow> launcher option" where
  "on_cancel payload l =
     (if get_prop payload ''event'' = Some (JStr ''CANCEL'')
         \<or> get_prop payload ''event'' = Some (JStr ''ERROR'') then
        (case get_prop payload ''data'' of
           None \<Rightarrow> None
         | Some d \<Rightarrow>
             (case get_prop d ''current_step'' of
                None \<Rightarrow> None
              | Some current_step \<Rightarrow> Some (emit (Cancel (Some current_step)) l)))
      else Some l)"

text \<open>
  \<^verbatim>\<open>_onMessage\<close>: the whole body is inside \<^verbatim>\<open>try { ... } catch { }\<close>, so every \<open>None\<close> ends
  the call with the state reached so far. The origin check is commented out in the source
  and the two \<^verbatim>\<open>console.log\<close> calls are not modelled.
\<close>

definition onMessage :: "(string \<Rightarrow> jsval option) \<Rightarrow> jsval \<Rightarrow> launcher \<Rightarrow> launcher" where
  "onMessage JSON_parse data l =
     (case payload_of JSON_parse data of
        None \<Rightarrow> l
      | Some payload \<Rightarrow>
          (case get_prop payload ''type'' of
             None \<Rightarrow> l
           | Some t \<Rightarrow>
               if t \<noteq> JStr WA_EMBEDDED_SIGNUP then l
               else
                 (case on_finish payload l of
                    None \<Rightarrow> l
                  | Some l1 \<Rightarrow>
                      (case on_cancel payload l1 of
                         None \<Rightarrow> l1
                       | Some l2 \<Rightarrow> l2))))"

text \<open>The window delivers a message event to \<^verbatim>\<open>_onMessage\<close> only while it is registered.\<close>

definition window_message :: "(string \<Rightarrow> jsval option) \<Rightarrow> jsval \<Rightarrow> launcher \<Rightarrow> launcher" where
  "window_message JSON_parse data l =
     (if listening l then onMessage JSON_parse data l else l)"

fun deliver :: "(string \<Rightarrow> jsval option) \<Rightarrow> jsval list \<Rightarrow> launcher \<Rightarrow> launcher" where
  "deliver JSON_parse [] l = l"
| "deliver JSON_parse (d # ds) l = deliver JSON_parse ds (window_message JSON_parse d l)"

subsection \<open>The login callback\<close>

text \<open>\<^verbatim>\<open>!x\<close> for an optional string: absent or empty.\<close>

definition falsy :: "string option \<Rightarrow> bool" where
  "falsy x = (x = None \<or> x = Some [])"

text \<open>\<^verbatim>\<open>code ?? accessToken\<close>: the right operand only when the left one is absent.\<close>

definition nullish_or :: "string option \<Rightarrow> string option \<Rightarrow> jsval" where
  "nullish_or c t =
     (case c of
        Some x \<Rightarrow> JStr x
      | None \<Rightarrow> (case t of Some y \<Rightarrow> JStr y | None \<Rightarrow> JUndefined))"

definition no_credential_message :: string where
  "no_credential_message = ''[SignupLauncher] No auth code or token in FB.login() response.''"

text \<open>The arrow function passed to \<^verbatim>\<open>FB.login\<close>.\<close>

definition loginCallback :: "login_response \<Rightarrow> launcher \<Rightarrow> launcher" where
  "loginCallback response l =
     (let l1 = l\<lparr>listening := False, trace := trace l @ [RemoveListener]\<rparr> in
      case authResponse response of
        None \<Rightarrow> emit (Cancel None) l1
      | Some auth \<Rightarrow>
          if falsy (code auth) \<and> falsy (accessToken auth) then
            emit (Error no_credential_message) l1
          else
            emit (Success \<lparr>payload_code = nullish_or (code auth) (accessToken auth),
                           wabaId = waba_id (sessionData l1),
                           phoneNumberId = phone_number_id (sessionData l1)\<rparr>) l1)"

subsection \<open>Launching\<close>

definition signup_extras :: jsval where
  "signup_extras =
     JObj [(''setup'', JObj []), (''featureType'', JStr []), (''sessionInfoVersion'', JStr ''3'')]"

text \<open>
  \<^verbatim>\<open>launchSignup\<close>, reading the loader's \<^verbatim>\<open>FB\<close> and \<^verbatim>\<open>isReady\<close>. The callback handed to
  \<^verbatim>\<open>FB.login\<close> is \<open>loginCallback\<close>; the SDK calls it later.
\<close>

definition launchSignup :: "sdk_state \<Rightarrow> props \<Rightarrow> launcher \<Rightarrow> launcher" where
  "launchSignup sdk p l =
     (if FB sdk = None \<or> \<not> isReady sdk then l
      else
        l\<lparr>sessionData := empty_session,
          listening := True,
          trace := trace l @
            [AddListener,
             Login \<lparr>config_id = configId p, response_type = ''code'',
                    override_default_response_type = True, extras = signup_extras\<rparr>]\<rparr>)"

section \<open>Properties of the launcher\<close>

lemma get_prop_None_iff: "get_prop v name = None \<longleftrightarrow> v = JUndefined \<or> v = JNull"
  by (cases v) (auto split: option.splits)

lemma onMessage_listening: "listening (onMessage P d l) = listening l"
  by (auto simp: onMessage_def on_finish_def on_cancel_def emit_def split: option.splits if_splits)

lemma deliver_listening: "listening (deliver P ds l) = listening l"
  by (induction ds arbitrary: l) (auto simp: window_message_def onMessage_listening)

lemma deliver_append: "deliver P (xs @ ys) l = deliver P ys (deliver P xs l)"
  by (induction xs arbitrary: l) auto

lemma deliver_keeps_session:
  "\<forall>e\<in>set ds. \<forall>l'. sessionData (onMessage P e l') = sessionData l' \<Longrightarrow>
   sessionData (deliver P ds l) = sessionData l"
  by (induction ds arbitrary: l) (auto simp: window_message_def)

lemma not_finish_keeps_session:
  assumes "\<forall>payload. payload_of P e = Some payload \<longrightarrow>
      get_prop payload ''type'' \<noteq> Some (JStr WA_EMBEDDED_SIGNUP)
      \<or> get_prop payload ''event'' \<noteq> Some (JStr ''FINISH'')"
  shows "sessionData (onMessage P e l) = sessionData l"
proof (cases "payload_of P e")
  case None
  then show ?thesis
    by (simp add: onMessage_def)
next
  case (Some payload)
  show ?thesis
  proof (cases "get_prop payload ''type'' = Some (JStr WA_EMBEDDED_SIGNUP)")
    case True
    with assms Some have "get_prop payload ''event'' \<noteq> Some (JStr ''FINISH'')"
      by simp
    then show ?thesis
      using Some True
      by (auto simp: onMessage_def on_finish_def on_cancel_def emit_def split: option.splits)
  next
    case False
    then show ?thesis
      using Some by (auto simp: onMessage_def split: option.splits)
  qed
qed

lemma onMessage_finish:
  assumes "payload_of P m = Some payload"
    and "get_prop payload ''type'' = Some (JStr WA_EMBEDDED_SIGNUP)"
    and "get_prop payload ''event'' = Some (JStr ''FINISH'')"
    and "get_prop payload ''data'' = Some d"
    and "get_prop d ''waba_id'' = Some W"
    and "get_prop d ''phone_number_id'' = Some Pn"
  shows "onMessage P m l = l\<lparr>sessionData := \<lparr>phone_number_id = Pn, waba_id = W\<rparr>\<rparr>"
  using assms by (simp add: onMessage_def on_finish_def on_cancel_def)

text \<open>
  Claim C1, as amended. After a launch from a ready loader, let the window deliver any
  messages, then a FINISH message of the embedded-signup type whose data carries the
  business-account id \<open>W\<close> and the phone-number id \<open>Pn\<close>, then only messages that are not
  FINISH messages of that type. When the login callback then fires with an authorization payload
  that has a code or a token, the launcher unregisters the listener and emits exactly one
  event, \<^verbatim>\<open>success\<close>, with \<open>W\<close> and \<open>Pn\<close> and with the code, or the access token when the
  payload has no code field. (The source names the payload fields \<^verbatim>\<open>wabaId\<close> and
  \<^verbatim>\<open>phoneNumberId\<close>.)
\<close>

theorem success_carries_last_finish:
  assumes ready: "FB sdk \<noteq> None \<and> isReady sdk"
    and m: "payload_of P m = Some payload"
      "get_prop payload ''type'' = Some (JStr WA_EMBEDDED_SIGNUP)"
      "get_prop payload ''event'' = Some (JStr ''FINISH'')"
      "get_prop payload ''data'' = Some d"
      "get_prop d ''waba_id'' = Some W"
      "get_prop d ''phone_number_id'' = Some Pn"
    and post: "\<forall>e\<in>set post. \<forall>payload'. payload_of P e = Some payload' \<longrightarrow>
      get_prop payload' ''type'' \<noteq> Some (JStr WA_EMBEDDED_SIGNUP)
      \<or> get_prop payload' ''event'' \<noteq> Some (JStr ''FINISH'')"
    and auth: "\<not> (falsy (code auth) \<and> falsy (accessToken auth))"
  shows "let l1 = deliver P (pre @ m # post) (launchSignup sdk p l) in
         loginCallback \<lparr>authResponse = Some auth, status = st\<rparr> l1 =
           l1\<lparr>listening := False,
              trace := trace l1 @
                [RemoveListener,
                 Emit (Success \<lparr>payload_code = nullish_or (code auth) (accessToken auth),
                                wabaId = W, phoneNumberId = Pn\<rparr>)]\<rparr>"
proof -
  define l1 where "l1 = deliver P (pre @ m # post) (launchSignup sdk p l)"
  let ?l0 = "deliver P pre (launchSignup sdk p l)"
  have "listening (launchSignup sdk p l)"
    using ready by (auto simp: launchSignup_def)
  then have "listening ?l0"
    by (simp add: deliver_listening)
  then have "window_message P m ?l0 = ?l0\<lparr>sessionData := \<lparr>phone_number_id = Pn, waba_id = W\<rparr>\<rparr>"
    using onMessage_finish [OF m] by (simp add: window_message_def)
  moreover have "\<forall>e\<in>set post. \<forall>l'. sessionData (onMessage P e l') = sessionData l'"
    using post by (simp add: not_finish_keeps_session)
  ultimately have "sessionData l1 = \<lparr>phone_number_id = Pn, waba_id = W\<rparr>"
    by (simp add: l1_def deliver_append deliver_keeps_session)
  then have "loginCallback \<lparr>authResponse = Some auth, status = st\<rparr> l1 =
           l1\<lparr>listening := False,
              trace := trace l1 @
                [RemoveListener,
                 Emit (Success \<lparr>payload_code = nullish_or (code auth) (accessToken auth),
                                wabaId = W, phoneNumberId = Pn\<rparr>)]\<rparr>"
    using auth by (simp add: loginCallback_def emit_def Let_def)
  then show ?thesis
    by (simp add: l1_def Let_def)
qed

text \<open>
  An instance: the FINISH message arrives as a JSON string, a CANCEL message follows it,
  and the callback brings the code \<^verbatim>\<open>abc\<close>.
\<close>

theorem success_carries_last_finish_witness:
  "trace (loginCallback
      \<lparr>authResponse = Some \<lparr>code = Some ''abc'', accessToken = None, userID = ''u1'',
          expiresIn = 3600, signedRequest = ''sr'', data_access_expiration_time = None\<rparr>,
       status = Connected\<rparr>
      (deliver
        (\<lambda>txt. if txt = ''finish-json'' then
            Some (JObj [(''type'', JStr ''WA_EMBEDDED_SIGNUP''), (''event'', JStr ''FINISH''),
              (''data'', JObj [(''phone_number_id'', JStr ''P1''), (''waba_id'', JStr ''W1'')]),
              (''version'', JStr ''3'')])
          else None)
        ([] @ JStr ''finish-json'' #
          [JObj [(''type'', JStr ''WA_EMBEDDED_SIGNUP''), (''event'', JStr ''CANCEL''),
             (''data'', JObj [(''current_step'', JStr ''PHONE'')])]])
        (launchSignup
          ((initial_state [])\<lparr>FB := Some \<lparr>fb_ident = 0, init_throws = None\<rparr>, isReady := True\<rparr>)
          \<lparr>configId = Some ''cfg-1'', buttonLabel = ''Connect''\<rparr>
          \<lparr>sessionData = empty_session, listening = False, trace = []\<rparr>)))
   = [AddListener,
      Login \<lparr>config_id = Some ''cfg-1'', response_type = ''code'',
              override_default_response_type = True, extras = signup_extras\<rparr>,
      Emit (Cancel (Some (JStr ''PHONE''))),
      RemoveListener,
      Emit (Success \<lparr>payload_code = JStr ''abc'', wabaId = JStr ''W1'',
                      phoneNumberId = JStr ''P1''\<rparr>)]"
  using success_carries_last_finish
    [of "(initial_state [])\<lparr>FB := Some \<lparr>fb_ident = 0, init_throws = None\<rparr>, isReady := True\<rparr>"
      "\<lambda>txt. if txt = ''finish-json'' then
            Some (JObj [(''type'', JStr ''WA_EMBEDDED_SIGNUP''), (''event'', JStr ''FINISH''),
              (''data'', JObj [(''phone_number_id'', JStr ''P1''), (''waba_id'', JStr ''W1'')]),
              (''version'', JStr ''3'')])
          else None"
      "JStr ''finish-json''"
      "JObj [(''type'', JStr ''WA_EMBEDDED_SIGNUP''), (''event'', JStr ''FINISH''),
              (''data'', JObj [(''phone_number_id'', JStr ''P1''), (''waba_id'', JStr ''W1'')]),
              (''version'', JStr ''3'')]"
      "JObj [(''phone_number_id'', JStr ''P1''), (''waba_id'', JStr ''W1'')]"
      "JStr ''W1''" "JStr ''P1''"
      "[JObj [(''type'', JStr ''WA_EMBEDDED_SIGNUP''), (''event'', JStr ''CANCEL''),
             (''data'', JObj [(''current_step'', JStr ''PHONE'')])]]"
      "\<lparr>code = Some ''abc'', accessToken = None, userID = ''u1'',
          expiresIn = 3600, signedRequest = ''sr'', data_access_expiration_time = None\<rparr>"
      "[]" "\<lparr>configId = Some ''cfg-1'', buttonLabel = ''Connect''\<rparr>"
      "\<lparr>sessionData = empty_session, listening = False, trace = []\<rparr>" Connected]
  by (simp add: loginCallback_def launchSignup_def window_message_def onMessage_def
      payload_of_def on_finish_def on_cancel_def WA_EMBEDDED_SIGNUP_def emit_def falsy_def
      nullish_or_def initial_state_def Let_def)

text \<open>
  Claim C1 as stated fails when a second FINISH message follows the first before the
  callback fires: the buffer is overwritten, and \<^verbatim>\<open>success\<close> carries the later identifiers.
\<close>

theorem later_finish_overwrites_counterexample:
  "trace (loginCallback
      \<lparr>authResponse = Some \<lparr>code = Some ''abc'', accessToken = None, userID = ''u1'',
          expiresIn = 3600, signedRequest = ''sr'', data_access_expiration_time = None\<rparr>,
       status = Connected\<rparr>
      (deliver (\<lambda>txt. None)
        [JObj [(''type'', JStr ''WA_EMBEDDED_SIGNUP''), (''event'', JStr ''FINISH''),
           (''data'', JObj [(''phone_number_id'', JStr ''P1''), (''waba_id'', JStr ''W1'')])],
         JObj [(''type'', JStr ''WA_EMBEDDED_SIGNUP''), (''event'', JStr ''FINISH''),
           (''data'', JObj [(''phone_number_id'', JStr ''P2''), (''waba_id'', JStr ''W2'')])]]
        (launchSignup
          ((initial_state [])\<lparr>FB := Some \<lparr>fb_ident = 0, init_throws = None\<rparr>, isReady := True\<rparr>)
          \<lparr>configId = Some ''cfg-1'', buttonLabel = ''Connect''\<rparr>
          \<lparr>sessionData = empty_session, listening = False, trace = []\<rparr>)))
   = [AddListener,
      Login \<lparr>config_id = Some ''cfg-1'', response_type = ''code'',
              override_default_response_type = True, extras = signup_extras\<rparr>,
      RemoveListener,
      Emit (Success \<lparr>payload_code = JStr ''abc'', wabaId = JStr ''W2'',
                      phoneNumberId = JStr ''P2''\<rparr>)]"
  by (simp add: loginCallback_def launchSignup_def window_message_def onMessage_def
      payload_of_def on_finish_def on_cancel_def WA_EMBEDDED_SIGNUP_def emit_def falsy_def
      nullish_or_def initial_state_def Let_def)



text \<open>
  Claim C7. A launch while the loader's handle is absent or the loader is not ready returns
  at once: the buffer, the listener registration and the effects (no event, no login call)
  are what they were. The model of \<^verbatim>\<open>launchSignup\<close> has no throwing path.
\<close>

theorem launch_not_ready_is_noop:
  "FB sdk = None \<or> \<not> isReady sdk \<Longrightarrow> launchSignup sdk p l = l"
  by (simp add: launchSignup_def)

theorem launch_not_ready_is_noop_witness:
  "FB (initial_state []) = None \<and>
   launchSignup (initial_state []) \<lparr>configId = Some ''cfg-1'', buttonLabel = ''Connect''\<rparr>
     \<lparr>sessionData = empty_session, listening = False, trace = []\<rparr>
   = \<lparr>sessionData = empty_session, listening = False, trace = []\<rparr>"
  using launch_not_ready_is_noop [of "initial_state []"]
  by (simp add: initial_state_def)

text \<open>
  Claim C8, as amended. A message whose payload cannot be parsed, or whose type is not the
  embedded-signup sentinel, leaves the launcher as it was: nothing is emitted and the
  buffer is unchanged. A message of that type with sub-event CANCEL or ERROR whose data
  member is neither undefined nor null makes the listener emit \<^verbatim>\<open>cancel\<close> with the data's
  \<^verbatim>\<open>current_step\<close> and changes nothing else; the listener does not look at whether the
  login callback has fired.
\<close>

theorem message_cancel_or_ignored:
  "(payload_of P data = None \<longrightarrow> onMessage P data l = l)
   \<and> (\<forall>payload. payload_of P data = Some payload
         \<and> get_prop payload ''type'' \<noteq> Some (JStr WA_EMBEDDED_SIGNUP) \<longrightarrow> onMessage P data l = l)
   \<and> (\<forall>payload d. payload_of P data = Some payload
         \<and> get_prop payload ''type'' = Some (JStr WA_EMBEDDED_SIGNUP)
         \<and> (get_prop payload ''event'' = Some (JStr ''CANCEL'')
              \<or> get_prop payload ''event'' = Some (JStr ''ERROR''))
         \<and> get_prop payload ''data'' = Some d \<and> d \<noteq> JUndefined \<and> d \<noteq> JNull
       \<longrightarrow> (\<exists>current_step. get_prop d ''current_step'' = Some current_step
             \<and> onMessage P data l = l\<lparr>trace := trace l @ [Emit (Cancel (Some current_step))]\<rparr>))"
proof (intro conjI allI impI)
  assume "payload_of P data = None"
  then show "onMessage P data l = l"
    by (simp add: onMessage_def)
next
  fix payload
  assume "payload_of P data = Some payload
    \<and> get_prop payload ''type'' \<noteq> Some (JStr WA_EMBEDDED_SIGNUP)"
  then show "onMessage P data l = l"
    by (auto simp: onMessage_def split: option.splits)
next
  fix payload d
  assume h: "payload_of P data = Some payload
         \<and> get_prop payload ''type'' = Some (JStr WA_EMBEDDED_SIGNUP)
         \<and> (get_prop payload ''event'' = Some (JStr ''CANCEL'')
              \<or> get_prop payload ''event'' = Some (JStr ''ERROR''))
         \<and> get_prop payload ''data'' = Some d \<and> d \<noteq> JUndefined \<and> d \<noteq> JNull"
  then obtain cs where cs: "get_prop d ''current_step'' = Some cs"
    using get_prop_None_iff [of d "''current_step''"] by auto
  from h have nf: "get_prop payload ''event'' \<noteq> Some (JStr ''FINISH'')"
    by auto
  from h cs nf have "onMessage P data l = l\<lparr>trace := trace l @ [Emit (Cancel (Some cs))]\<rparr>"
    by (auto simp: onMessage_def on_finish_def on_cancel_def emit_def)
  with cs show "\<exists>current_step. get_prop d ''current_step'' = Some current_step
      \<and> onMessage P data l = l\<lparr>trace := trace l @ [Emit (Cancel (Some current_step))]\<rparr>"
    by blast
qed

text \<open>
  Instances: an ERROR message given as a JSON string, after the listener was unregistered
  by the callback or before; a string that does not parse; a payload of another type.
\<close>

theorem message_cancel_or_ignored_witness:
  "onMessage
     (\<lambda>txt. if txt = ''error-json'' then
        Some (JObj [(''type'', JStr ''WA_EMBEDDED_SIGNUP''), (''event'', JStr ''ERROR''),
          (''data'', JObj [(''current_step'', JStr ''BUSINESS'')])])
      else None)
     (JStr ''error-json'')
     \<lparr>sessionData = empty_session, listening = True, trace = [AddListener]\<rparr>
   = \<lparr>sessionData = empty_session, listening = True,
      trace = [AddListener, Emit (Cancel (Some (JStr ''BUSINESS'')))]\<rparr>
   \<and> onMessage (\<lambda>txt. None) (JStr ''not json'')
     \<lparr>sessionData = empty_session, listening = True, trace = [AddListener]\<rparr>
   = \<lparr>sessionData = empty_session, listening = True, trace = [AddListener]\<rparr>
   \<and> onMessage (\<lambda>txt. None) (JObj [(''type'', JStr ''other''), (''event'', JStr ''CANCEL'')])
     \<lparr>sessionData = empty_session, listening = True, trace = [AddListener]\<rparr>
   = \<lparr>sessionData = empty_session, listening = True, trace = [AddListener]\<rparr>"
  using message_cancel_or_ignored
    [of "\<lambda>txt. if txt = ''error-json'' then
        Some (JObj [(''type'', JStr ''WA_EMBEDDED_SIGNUP''), (''event'', JStr ''ERROR''),
          (''data'', JObj [(''current_step'', JStr ''BUSINESS'')])])
      else None"
      "JStr ''error-json''"
      "\<lparr>sessionData = empty_session, listening = True, trace = [AddListener]\<rparr>"]
    message_cancel_or_ignored
    [of "\<lambda>txt. None" "JStr ''not json''"
      "\<lparr>sessionData = empty_session, listening = True, trace = [AddListener]\<rparr>"]
    message_cancel_or_ignored
    [of "\<lambda>txt. None" "JObj [(''type'', JStr ''other''), (''event'', JStr ''CANCEL'')]"
      "\<lparr>sessionData = empty_session, listening = True, trace = [AddListener]\<rparr>"]
  by (simp add: payload_of_def WA_EMBEDDED_SIGNUP_def)

text \<open>
  Claim C8 as stated fails for a CANCEL message of the embedded-signup type that has no
  data member: reading \<^verbatim>\<open>current_step\<close> of \<^verbatim>\<open>undefined\<close> throws inside the \<^verbatim>\<open>try\<close> block, the
  exception is swallowed, and no event is emitted.
\<close>

theorem cancel_without_data_counterexample:
  "get_prop (JObj [(''type'', JStr ''WA_EMBEDDED_SIGNUP''), (''event'', JStr ''CANCEL'')]) ''type''
     = Some (JStr WA_EMBEDDED_SIGNUP)
   \<and> get_prop (JObj [(''type'', JStr ''WA_EMBEDDED_SIGNUP''), (''event'', JStr ''CANCEL'')]) ''event''
     = Some (JStr ''CANCEL'')
   \<and> onMessage (\<lambda>txt. None)
        (JObj [(''type'', JStr ''WA_EMBEDDED_SIGNUP''), (''event'', JStr ''CANCEL'')])
        \<lparr>sessionData = empty_session, listening = True, trace = [AddListener]\<rparr>
     = \<lparr>sessionData = empty_session, listening = True, trace = [AddListener]\<rparr>"
  by (simp add: onMessage_def payload_of_def on_finish_def on_cancel_def WA_EMBEDDED_SIGNUP_def)

section \<open>Properties of the loader\<close>

subsection \<open>Running the microtask queue\<close>

lemma drain_Nil: "micro s = [] \<Longrightarrow> drain s = s"
  by (subst drain.simps) simp

lemma drain_Cons: "micro s = k # q \<Longrightarrow> drain s = drain (continue_op k (s\<lparr>micro := q\<rparr>))"
  by (subst drain.simps) simp

lemma drain_preserves:
  assumes "\<And>k s q. P s \<Longrightarrow> micro s = k # q \<Longrightarrow> P (continue_op k (s\<lparr>micro := q\<rparr>))"
  shows "P s \<Longrightarrow> P (drain s)"
proof (induction s rule: drain.induct)
  case (1 s)
  show ?case
  proof (cases "micro s")
    case Nil
    then show ?thesis
      using "1.prems" by (simp add: drain_Nil)
  next
    case (Cons k q)
    then show ?thesis
      using "1.IH" [OF Cons] "1.prems" assms [OF _ Cons] by (simp add: drain_Cons)
  qed
qed

lemma drain_micro: "micro (drain s) = []"
proof (induction s rule: drain.induct)
  case (1 s)
  show ?case
  proof (cases "micro s")
    case Nil
    then show ?thesis
      by (simp add: drain_Nil)
  next
    case (Cons k q)
    then show ?thesis
      using "1.IH" [OF Cons] by (simp add: drain_Cons)
  qed
qed

lemmas eval_defs = loadSDK_def injectScript_def getElementById_def SDK_SCRIPT_ID_def
  insertBefore_firstScript_def sdk_script_def useFacebookSDK_def script_onload_def
  script_onerror_def drain.simps continue_op_def initSDK_def init_args_def timeout_fires_def
  settle_init_def loadSDK_catch_def hook_settle_def finalise_def initial_state_def
  op_outcome_def Let_def resetSDK_def returned_outcome_def in_flight_def

subsection \<open>What the events leave alone, and the script events\<close>

lemma run_hook_window_FB: "window_FB (run_hook h s) = window_FB s"
  by (induction h arbitrary: s)
    (auto simp: Let_def hook_settle_def settle_init_def finalise_def split: option.splits)

lemma waiting_frame [simp]:
  "waiting k cfg (s\<lparr>micro := q\<rparr>) = waiting k cfg s"
  "waiting k cfg (s\<lparr>window_FB := w\<rparr>) = waiting k cfg s"
  "waiting k cfg (s\<lparr>effects := ef\<rparr>) = waiting k cfg s"
  by (simp_all add: waiting_def)

lemma waiting_continue: "waiting k cfg s \<Longrightarrow> waiting k cfg (continue_op j s)"
  by (cases "j = k")
    (auto simp: waiting_def continue_op_def initSDK_def loadSDK_catch_def finalise_def
      split: stage.splits option.splits)

lemma waiting_drain: "waiting k cfg s \<Longrightarrow> waiting k cfg (drain s)"
  by (rule drain_preserves [where P = "waiting k cfg"]) (simp_all add: waiting_continue)

lemma waiting_loadSDK: "waiting k cfg s \<Longrightarrow> waiting k cfg (snd (loadSDK c s))"
  by (auto simp: waiting_def loadSDK_def injectScript_def Let_def split: option.splits)

lemma waiting_reset: "waiting k cfg s \<Longrightarrow> waiting k cfg (resetSDK s)"
  by (simp add: waiting_def resetSDK_def)

lemma waiting_onload: "j \<noteq> k \<Longrightarrow> waiting k cfg s \<Longrightarrow> waiting k cfg (script_onload j s)"
  by (auto simp: waiting_def script_onload_def split: stage.splits)

lemma waiting_onerror: "j \<noteq> k \<Longrightarrow> waiting k cfg s \<Longrightarrow> waiting k cfg (script_onerror j s)"
  by (auto simp: waiting_def script_onerror_def split: stage.splits)

lemma waiting_hook_settle: "waiting k cfg s \<Longrightarrow> waiting k cfg (hook_settle j r s)"
  by (auto simp: waiting_def hook_settle_def settle_init_def)

lemma waiting_timeout: "waiting k cfg s \<Longrightarrow> waiting k cfg (timeout_fires j s)"
  by (auto simp: waiting_def timeout_fires_def settle_init_def Let_def)

lemma waiting_run_hook: "waiting k cfg s \<Longrightarrow> waiting k cfg (run_hook h s)"
proof (induction h arbitrary: s)
  case NoHook
  then show ?case by simp
next
  case (Foreign n)
  then show ?case by simp
next
  case (Installed j p previousInit)
  let ?s1 = "run_hook previousInit s"
  have s1: "waiting k cfg ?s1"
    using Installed by simp
  then have "waiting k cfg (finalise (?s1\<lparr>effects := effects ?s1 @ [FBInit p]\<rparr>))"
    by (simp add: waiting_def finalise_def)
  then show ?case
    using s1 by (simp add: Let_def waiting_hook_settle split: option.splits)
qed

lemma waiting_step:
  "ev \<noteq> ScriptLoad k \<Longrightarrow> ev \<noteq> ScriptError k \<Longrightarrow> waiting k cfg s \<Longrightarrow> waiting k cfg (step ev s)"
  by (cases ev)
    (simp_all add: waiting_loadSDK waiting_reset waiting_drain waiting_onload waiting_onerror
      waiting_run_hook waiting_timeout)

lemma waiting_run:
  "ScriptLoad k \<notin> set evs \<Longrightarrow> ScriptError k \<notin> set evs \<Longrightarrow> waiting k cfg s
   \<Longrightarrow> waiting k cfg (run evs s)"
  by (induction evs arbitrary: s) (auto simp: waiting_step)

lemma load_event_ready:
  assumes "stage t k = InjectPending cfg" "micro t = []" "isReady t"
  shows "drain (script_onload k t) = t\<lparr>stage := (stage t)(k := Resolved), micro := []\<rparr>"
  using assms
  by (simp add: script_onload_def drain_Nil drain.simps [of "_\<lparr>micro := _ # _\<rparr>"]
      continue_op_def initSDK_def)

lemma load_event_no_app_id:
  assumes "stage t k = InjectPending cfg" "micro t = []" "\<not> isReady t" "appId cfg = []"
  shows "drain (script_onload k t) = (loadSDK_catch k MissingIdentity t)\<lparr>micro := []\<rparr>"
  using assms
  by (simp add: script_onload_def drain_Nil drain.simps [of "_\<lparr>micro := _ # _\<rparr>"]
      continue_op_def initSDK_def loadSDK_catch_def)

lemma load_event_fb_defined:
  assumes "stage t k = InjectPending cfg" "micro t = []" "\<not> isReady t" "appId cfg \<noteq> []"
    "window_FB t = Some fb"
  shows "drain (script_onload k t) =
     (finalise t)\<lparr>stage := (stage t)(k := Resolved), micro := []\<rparr>"
  using assms
  by (simp add: script_onload_def drain_Nil drain.simps [of "_\<lparr>micro := _ # _\<rparr>"]
      continue_op_def initSDK_def finalise_def)

lemma load_event_fb_undefined:
  assumes "stage t k = InjectPending cfg" "micro t = []" "\<not> isReady t" "appId cfg \<noteq> []"
    "window_FB t = None"
  shows "drain (script_onload k t) =
     t\<lparr>stage := (stage t)(k := InitPending), settled := (settled t)(k := False),
       timer := (timer t)(k := True),
       window_fbAsyncInit := Installed k (init_args cfg) (window_fbAsyncInit t),
       micro := []\<rparr>"
  using assms
  by (simp add: script_onload_def drain_Nil continue_op_def initSDK_def
      drain.simps [of "_\<lparr>micro := _ # _\<rparr>"])

lemma error_event:
  assumes "stage t k = InjectPending cfg" "micro t = []"
  shows "drain (script_onerror k t) =
     (loadSDK_catch k (ScriptLoadError (el_src (sdk_script cfg))) t)\<lparr>micro := []\<rparr>"
  using assms
  by (simp add: script_onerror_def drain_Nil drain.simps [of "_\<lparr>micro := _ # _\<rparr>"]
      continue_op_def loadSDK_catch_def)


lemma drain_stage_waiting: "stage s k = InjectPending cfg \<Longrightarrow> stage (drain s) k = InjectPending cfg"
proof (rule drain_preserves [where P = "\<lambda>t. stage t k = InjectPending cfg"])
  fix j and t :: sdk_state and q
  assume "stage t k = InjectPending cfg"
  then show "stage (continue_op j (t\<lparr>micro := q\<rparr>)) k = InjectPending cfg"
    by (cases "j = k")
      (auto simp: continue_op_def initSDK_def loadSDK_catch_def finalise_def
        split: stage.splits option.splits)
qed

lemma continue_op_outside:
  "document (continue_op j s) = document s \<and> effects (continue_op j s) = effects s
   \<and> window_FB (continue_op j s) = window_FB s"
  by (auto simp: continue_op_def initSDK_def loadSDK_catch_def finalise_def
      split: stage.splits option.splits)

lemma drain_outside:
  "document (drain s) = document s \<and> effects (drain s) = effects s
   \<and> window_FB (drain s) = window_FB s"
proof -
  have "document (drain s) = document s \<and> effects (drain s) = effects s
      \<and> window_FB (drain s) = window_FB s"
    by (rule drain_preserves
        [where P = "\<lambda>t. document t = document s \<and> effects t = effects s
          \<and> window_FB t = window_FB s"])
      (simp_all add: continue_op_outside)
  then show ?thesis .
qed








lemma load_event_cases:
  assumes w: "stage u k = InjectPending cfg"
  shows "(appId cfg = [] \<and> \<not> isReady (drain u) \<longrightarrow>
            step (ScriptLoad k) u = (loadSDK_catch k MissingIdentity (drain u))\<lparr>micro := []\<rparr>)
    \<and> (isReady (drain u) \<longrightarrow>
            step (ScriptLoad k) u = (drain u)\<lparr>stage := (stage (drain u))(k := Resolved), micro := []\<rparr>)
    \<and> (appId cfg \<noteq> [] \<and> \<not> isReady (drain u) \<and> window_FB u \<noteq> None \<longrightarrow>
            step (ScriptLoad k) u =
              (finalise (drain u))\<lparr>stage := (stage (drain u))(k := Resolved), micro := []\<rparr>)
    \<and> (appId cfg \<noteq> [] \<and> \<not> isReady (drain u) \<and> window_FB u = None \<longrightarrow>
            step (ScriptLoad k) u =
              (drain u)\<lparr>stage := (stage (drain u))(k := InitPending),
                settled := (settled (drain u))(k := False),
                timer := (timer (drain u))(k := True),
                window_fbAsyncInit :=
                  Installed k (init_args cfg) (window_fbAsyncInit (drain u)),
                micro := []\<rparr>)
    \<and> step (ScriptError k) u =
          (loadSDK_catch k (ScriptLoadError (el_src (sdk_script cfg))) (drain u))\<lparr>micro := []\<rparr>"
proof -
  have t: "stage (drain u) k = InjectPending cfg" "micro (drain u) = []"
    using w by (simp_all add: drain_stage_waiting drain_micro)
  have wf: "window_FB (drain u) = window_FB u"
    by (simp add: drain_outside)
  show ?thesis
    using load_event_ready [OF t] load_event_no_app_id [OF t] error_event [OF t]
      load_event_fb_undefined [OF t] load_event_fb_defined [OF t] wf
    by auto
qed

subsection \<open>The state invariant\<close>

lemma inv_frame [simp]:
  "loader_inv (s\<lparr>micro := q\<rparr>) = loader_inv s"
  "loader_inv (s\<lparr>stage := st\<rparr>) = loader_inv s"
  "loader_inv (s\<lparr>effects := ef\<rparr>) = loader_inv s"
  "loader_inv (s\<lparr>window_FB := w\<rparr>) = loader_inv s"
  "loader_inv (s\<lparr>settled := se\<rparr>) = loader_inv s"
  "loader_inv (s\<lparr>timer := ti\<rparr>) = loader_inv s"
  by (simp_all add: loader_inv_def idle_def)

lemma inv_initial: "loader_inv (initial_state doc)"
  by (simp add: loader_inv_def initial_state_def idle_def exactly_one_def)

lemma inv_finalise: "window_FB s \<noteq> None \<Longrightarrow> loader_inv (finalise s)"
  by (auto simp: loader_inv_def finalise_def idle_def exactly_one_def)

lemma inv_catch: "loader_inv (loadSDK_catch k e s)"
  by (auto simp: loader_inv_def loadSDK_catch_def idle_def exactly_one_def)

lemma inv_reset: "loader_inv (resetSDK s)"
  by (auto simp: loader_inv_def resetSDK_def idle_def exactly_one_def)

lemma inv_initSDK: "loader_inv s \<Longrightarrow> loader_inv (initSDK cfg k s)"
  by (auto simp: loader_inv_def initSDK_def finalise_def idle_def exactly_one_def)

lemma inv_continue: "loader_inv s \<Longrightarrow> loader_inv (continue_op k s)"
  by (auto simp: continue_op_def inv_initSDK inv_catch split: stage.splits option.splits)

lemma inv_drain: "loader_inv s \<Longrightarrow> loader_inv (drain s)"
  by (rule drain_preserves [where P = loader_inv]) (simp_all add: inv_continue)

lemma inv_loadSDK: "loader_inv s \<Longrightarrow> loader_inv (snd (loadSDK cfg s))"
  by (auto simp: loadSDK_def injectScript_def loader_inv_def idle_def exactly_one_def Let_def
      split: option.splits)

lemma inv_script_onload: "loader_inv s \<Longrightarrow> loader_inv (script_onload k s)"
  by (auto simp: script_onload_def split: stage.splits)

lemma inv_script_onerror: "loader_inv s \<Longrightarrow> loader_inv (script_onerror k s)"
  by (auto simp: script_onerror_def split: stage.splits)

lemma inv_hook_settle: "loader_inv s \<Longrightarrow> loader_inv (hook_settle k r s)"
  by (auto simp: hook_settle_def settle_init_def)

lemma inv_timeout: "loader_inv s \<Longrightarrow> loader_inv (timeout_fires k s)"
  by (auto simp: timeout_fires_def settle_init_def Let_def)

lemma inv_run_hook: "loader_inv s \<Longrightarrow> loader_inv (run_hook h s)"
proof (induction h arbitrary: s)
  case NoHook
  then show ?case by simp
next
  case (Foreign n)
  then show ?case by simp
next
  case (Installed k p previousInit)
  let ?s1 = "run_hook previousInit s"
  have s1: "loader_inv ?s1"
    using Installed by simp
  show ?case
  proof (cases "window_FB ?s1")
    case None
    then show ?thesis
      using s1 by (simp add: inv_hook_settle)
  next
    case (Some fb)
    have "loader_inv (finalise (?s1\<lparr>effects := effects ?s1 @ [FBInit p]\<rparr>))"
      using Some by (simp add: inv_finalise)
    then show ?thesis
      using Some s1 by (simp add: Let_def inv_hook_settle split: option.splits)
  qed
qed

lemma inv_step: "loader_inv s \<Longrightarrow> loader_inv (step ev s)"
  by (cases ev)
    (simp_all add: inv_loadSDK inv_reset inv_drain inv_script_onload inv_script_onerror
      inv_run_hook inv_timeout)

lemma inv_run: "loader_inv s \<Longrightarrow> loader_inv (run evs s)"
  by (induction evs arbitrary: s) (simp_all add: inv_step)

text \<open>
  Claim C2. The invariant (ready implies handle present and no error; loading implies not
  ready; exactly one of loading, ready, idle) holds when the module is loaded, and each of
  the start of \<^verbatim>\<open>loadSDK\<close>, the finalisation on success (reached only with \<^verbatim>\<open>window.FB\<close>
  defined), the settlement of a failure, \<^verbatim>\<open>resetSDK\<close>, every single event and every sequence
  of events leads from a state that satisfies it to one that does.
\<close>

theorem loader_invariant_holds:
  "loader_inv (initial_state doc)
   \<and> (window_FB s \<noteq> None \<longrightarrow> loader_inv (finalise s))
   \<and> loader_inv (loadSDK_catch k e s)
   \<and> loader_inv (resetSDK s)
   \<and> (loader_inv s \<longrightarrow>
        loader_inv (snd (loadSDK cfg s)) \<and> loader_inv (step ev s) \<and> loader_inv (run evs s))"
  by (simp add: inv_initial inv_finalise inv_catch inv_reset inv_loadSDK inv_step inv_run)

text \<open>An instance: a load that ends ready, with the handle stored and no error.\<close>

theorem loader_invariant_holds_witness:
  "isReady
     (run [CallLoadSDK (useFacebookSDK True \<lparr>opt_appId = Some ''1234'',
              opt_version = Some ''v25.0'', opt_xfbml = Some False, opt_cookie = Some False,
              opt_debug = Some True\<rparr>),
           EndOfTask, SdkDefinesFB \<lparr>fb_ident = 7, init_throws = None\<rparr>, ScriptLoad 0]
        (initial_state [\<lparr>el_id = ''app'', el_src = ''/src/main.ts'', el_async = False,
           el_defer = False, el_crossOrigin = []\<rparr>]))
   \<and> loader_inv
     (run [CallLoadSDK (useFacebookSDK True \<lparr>opt_appId = Some ''1234'',
              opt_version = Some ''v25.0'', opt_xfbml = Some False, opt_cookie = Some False,
              opt_debug = Some True\<rparr>),
           EndOfTask, SdkDefinesFB \<lparr>fb_ident = 7, init_throws = None\<rparr>, ScriptLoad 0]
        (initial_state [\<lparr>el_id = ''app'', el_src = ''/src/main.ts'', el_async = False,
           el_defer = False, el_crossOrigin = []\<rparr>]))
   \<and> FB
     (run [CallLoadSDK (useFacebookSDK True \<lparr>opt_appId = Some ''1234'',
              opt_version = Some ''v25.0'', opt_xfbml = Some False, opt_cookie = Some False,
              opt_debug = Some True\<rparr>),
           EndOfTask, SdkDefinesFB \<lparr>fb_ident = 7, init_throws = None\<rparr>, ScriptLoad 0]
        (initial_state [\<lparr>el_id = ''app'', el_src = ''/src/main.ts'', el_async = False,
           el_defer = False, el_crossOrigin = []\<rparr>]))
     = Some \<lparr>fb_ident = 7, init_throws = None\<rparr>
   \<and> loader_inv
     (finalise ((initial_state [])\<lparr>window_FB := Some \<lparr>fb_ident = 7, init_throws = None\<rparr>\<rparr>))"
  using loader_invariant_holds
    [where s = "(initial_state [])\<lparr>window_FB := Some \<lparr>fb_ident = 7, init_throws = None\<rparr>\<rparr>"]
    loader_invariant_holds
    [of "[\<lparr>el_id = ''app'', el_src = ''/src/main.ts'', el_async = False,
           el_defer = False, el_crossOrigin = []\<rparr>]"
      "initial_state [\<lparr>el_id = ''app'', el_src = ''/src/main.ts'', el_async = False,
           el_defer = False, el_crossOrigin = []\<rparr>]"
      _ _ _ _
      "[CallLoadSDK (useFacebookSDK True \<lparr>opt_appId = Some ''1234'',
              opt_version = Some ''v25.0'', opt_xfbml = Some False, opt_cookie = Some False,
              opt_debug = Some True\<rparr>),
           EndOfTask, SdkDefinesFB \<lparr>fb_ident = 7, init_throws = None\<rparr>, ScriptLoad 0]"]
  by (simp add: eval_defs)

subsection \<open>Calls while a load is in flight, and calls when ready\<close>








text \<open>
  Claim C9. A call of \<^verbatim>\<open>loadSDK\<close> that finds the loader ready returns a promise that is
  already fulfilled and leaves the whole state as it was: the document, the flags, the
  error, the handle and everything else.
\<close>

theorem loadSDK_when_ready_is_noop:
  "isReady s \<Longrightarrow> loadSDK cfg s = (Immediate, s) \<and> returned_outcome s' Immediate = Fulfilled"
  by (simp add: loadSDK_def returned_outcome_def)

theorem loadSDK_when_ready_is_noop_witness:
  "isReady
     (run [CallLoadSDK (useFacebookSDK True \<lparr>opt_appId = Some ''1234'',
              opt_version = Some ''v25.0'', opt_xfbml = Some False, opt_cookie = Some False,
              opt_debug = Some True\<rparr>),
           EndOfTask, SdkDefinesFB \<lparr>fb_ident = 7, init_throws = None\<rparr>, ScriptLoad 0]
        (initial_state [\<lparr>el_id = ''app'', el_src = ''/src/main.ts'', el_async = False,
           el_defer = False, el_crossOrigin = []\<rparr>]))
   \<and> loadSDK (useFacebookSDK True \<lparr>opt_appId = None, opt_version = None, opt_xfbml = None,
          opt_cookie = None, opt_debug = None\<rparr>)
     (run [CallLoadSDK (useFacebookSDK True \<lparr>opt_appId = Some ''1234'',
              opt_version = Some ''v25.0'', opt_xfbml = Some False, opt_cookie = Some False,
              opt_debug = Some True\<rparr>),
           EndOfTask, SdkDefinesFB \<lparr>fb_ident = 7, init_throws = None\<rparr>, ScriptLoad 0]
        (initial_state [\<lparr>el_id = ''app'', el_src = ''/src/main.ts'', el_async = False,
           el_defer = False, el_crossOrigin = []\<rparr>]))
     = (Immediate,
        run [CallLoadSDK (useFacebookSDK True \<lparr>opt_appId = Some ''1234'',
              opt_version = Some ''v25.0'', opt_xfbml = Some False, opt_cookie = Some False,
              opt_debug = Some True\<rparr>),
           EndOfTask, SdkDefinesFB \<lparr>fb_ident = 7, init_throws = None\<rparr>, ScriptLoad 0]
        (initial_state [\<lparr>el_id = ''app'', el_src = ''/src/main.ts'', el_async = False,
           el_defer = False, el_crossOrigin = []\<rparr>]))"
  using loadSDK_when_ready_is_noop
    [of "run [CallLoadSDK (useFacebookSDK True \<lparr>opt_appId = Some ''1234'',
              opt_version = Some ''v25.0'', opt_xfbml = Some False, opt_cookie = Some False,
              opt_debug = Some True\<rparr>),
           EndOfTask, SdkDefinesFB \<lparr>fb_ident = 7, init_throws = None\<rparr>, ScriptLoad 0]
        (initial_state [\<lparr>el_id = ''app'', el_src = ''/src/main.ts'', el_async = False,
           el_defer = False, el_crossOrigin = []\<rparr>])"
      "useFacebookSDK True \<lparr>opt_appId = None, opt_version = None, opt_xfbml = None,
          opt_cookie = None, opt_debug = None\<rparr>"]
  by (simp add: eval_defs)

subsection \<open>Failure and retry\<close>

text \<open>
  Claim C6. The settlement of a failed load leaves the loader not ready, not loading, with
  the error stored and no cached operation. A call of \<^verbatim>\<open>loadSDK\<close> in such a state, whatever
  the error was, starts a new operation: the error is cleared, the loader is loading, the
  new operation is cached and in flight, and it has run the injection step (it waits for
  the inserted element, or has found the tag still in the document and goes on).
\<close>

theorem retry_after_failure:
  "(\<not> isReady (loadSDK_catch j e s0) \<and> \<not> isLoading (loadSDK_catch j e s0)
       \<and> error (loadSDK_catch j e s0) = Some e \<and> loadPromise (loadSDK_catch j e s0) = None
       \<and> op_outcome (loadSDK_catch j e s0) j = Failed e)
   \<and> (\<not> isReady s \<and> loadPromise s = None \<and> error s = Some e \<longrightarrow>
        (let k = next_op s; s' = snd (loadSDK cfg s) in
           fst (loadSDK cfg s) = Follows k
           \<and> error s' = None \<and> isLoading s' \<and> loadPromise s' = Some k \<and> in_flight s' k
           \<and> stage s' k =
               (if getElementById SDK_SCRIPT_ID (document s) \<noteq> None then InjectDone cfg None
                else InjectPending cfg)
           \<and> document s' =
               (if getElementById SDK_SCRIPT_ID (document s) \<noteq> None then document s
                else insertBefore_firstScript (sdk_script cfg) (document s))))"
  by (simp add: loadSDK_catch_def op_outcome_def loadSDK_def injectScript_def in_flight_def
      Let_def)

text \<open>
  An instance: a load without App ID fails once its script has loaded; the next call, with
  an App ID, clears the error and starts operation 1, which finds the tag in place.
\<close>

theorem retry_after_failure_witness:
  "error
     (run [CallLoadSDK (useFacebookSDK False \<lparr>opt_appId = None, opt_version = None,
              opt_xfbml = None, opt_cookie = None, opt_debug = None\<rparr>),
           ScriptLoad 0]
        (initial_state [\<lparr>el_id = ''app'', el_src = ''/src/main.ts'', el_async = False,
           el_defer = False, el_crossOrigin = []\<rparr>]))
     = Some MissingIdentity
   \<and> fst (loadSDK (useFacebookSDK False \<lparr>opt_appId = Some ''1234'', opt_version = None,
              opt_xfbml = None, opt_cookie = None, opt_debug = None\<rparr>)
     (run [CallLoadSDK (useFacebookSDK False \<lparr>opt_appId = None, opt_version = None,
              opt_xfbml = None, opt_cookie = None, opt_debug = None\<rparr>),
           ScriptLoad 0]
        (initial_state [\<lparr>el_id = ''app'', el_src = ''/src/main.ts'', el_async = False,
           el_defer = False, el_crossOrigin = []\<rparr>])))
     = Follows 1
   \<and> error (snd (loadSDK (useFacebookSDK False \<lparr>opt_appId = Some ''1234'', opt_version = None,
              opt_xfbml = None, opt_cookie = None, opt_debug = None\<rparr>)
     (run [CallLoadSDK (useFacebookSDK False \<lparr>opt_appId = None, opt_version = None,
              opt_xfbml = None, opt_cookie = None, opt_debug = None\<rparr>),
           ScriptLoad 0]
        (initial_state [\<lparr>el_id = ''app'', el_src = ''/src/main.ts'', el_async = False,
           el_defer = False, el_crossOrigin = []\<rparr>]))))
     = None
   \<and> stage (snd (loadSDK (useFacebookSDK False \<lparr>opt_appId = Some ''1234'', opt_version = None,
              opt_xfbml = None, opt_cookie = None, opt_debug = None\<rparr>)
     (run [CallLoadSDK (useFacebookSDK False \<lparr>opt_appId = None, opt_version = None,
              opt_xfbml = None, opt_cookie = None, opt_debug = None\<rparr>),
           ScriptLoad 0]
        (initial_state [\<lparr>el_id = ''app'', el_src = ''/src/main.ts'', el_async = False,
           el_defer = False, el_crossOrigin = []\<rparr>])))) 1
     = InjectDone (useFacebookSDK False \<lparr>opt_appId = Some ''1234'', opt_version = None,
              opt_xfbml = None, opt_cookie = None, opt_debug = None\<rparr>) None"
  using retry_after_failure
    [of _ MissingIdentity _
      "run [CallLoadSDK (useFacebookSDK False \<lparr>opt_appId = None, opt_version = None,
              opt_xfbml = None, opt_cookie = None, opt_debug = None\<rparr>),
           ScriptLoad 0]
        (initial_state [\<lparr>el_id = ''app'', el_src = ''/src/main.ts'', el_async = False,
           el_defer = False, el_crossOrigin = []\<rparr>])"
      "useFacebookSDK False \<lparr>opt_appId = Some ''1234'', opt_version = None,
              opt_xfbml = None, opt_cookie = None, opt_debug = None\<rparr>"]
  by (simp add: eval_defs)

subsection \<open>Missing App ID\<close>

text \<open>
  Claim C10, as amended. Take a loader that is not ready and holds no cached operation, in
  a document that has a script element but none with the SDK's id, and a call of
  \<^verbatim>\<open>loadSDK\<close> whose options give no App ID. When the call returns, the SDK's script element
  has been inserted in front of the first script, and the operation is pending with no
  error recorded: the App ID has not been looked at. Whatever happens next, the operation
  stays pending until the load or the error event of that element arrives. When the load
  event arrives and the loader is not ready as its task begins, the operation is rejected
  with the missing-App-ID error, which is stored; when the loader has become ready by then
  (through another operation), the operation is fulfilled instead. When the error event
  arrives, the operation is rejected with the script-load error.
\<close>

theorem missing_app_id_rejects_after_injection:
  assumes "appId cfg = []" and "\<not> isReady s" and "loadPromise s = None"
    and "getElementById SDK_SCRIPT_ID (document s) = None" and "document s \<noteq> []"
  shows "let k = next_op s; s1 = snd (loadSDK cfg s) in
      fst (loadSDK cfg s) = Follows k
      \<and> document s1 = sdk_script cfg # document s
      \<and> effects s1 = effects s @ [InsertScript (sdk_script cfg)]
      \<and> op_outcome s1 k = Pending \<and> error s1 = None
      \<and> (\<forall>evs. ScriptLoad k \<notin> set evs \<and> ScriptError k \<notin> set evs \<longrightarrow>
           op_outcome (run evs s1) k = Pending
           \<and> (\<not> isReady (drain (run evs s1)) \<longrightarrow>
                op_outcome (step (ScriptLoad k) (run evs s1)) k = Failed MissingIdentity
                \<and> error (step (ScriptLoad k) (run evs s1)) = Some MissingIdentity
                \<and> \<not> isReady (step (ScriptLoad k) (run evs s1))
                \<and> document (step (ScriptLoad k) (run evs s1)) = document (run evs s1))
           \<and> (isReady (drain (run evs s1)) \<longrightarrow>
                op_outcome (step (ScriptLoad k) (run evs s1)) k = Fulfilled
                \<and> isReady (step (ScriptLoad k) (run evs s1)))
           \<and> op_outcome (step (ScriptError k) (run evs s1)) k
                = Failed (ScriptLoadError (el_src (sdk_script cfg)))
           \<and> error (step (ScriptError k) (run evs s1))
                = Some (ScriptLoadError (el_src (sdk_script cfg))))"
proof -
  define k where "k = next_op s"
  define s1 where "s1 = snd (loadSDK cfg s)"
  obtain firstScript rest where doc: "document s = firstScript # rest"
    using assms(5) by (cases "document s") auto
  have call: "fst (loadSDK cfg s) = Follows k
      \<and> document s1 = sdk_script cfg # document s
      \<and> effects s1 = effects s @ [InsertScript (sdk_script cfg)]
      \<and> op_outcome s1 k = Pending \<and> error s1 = None"
    using assms doc
    by (simp add: k_def s1_def loadSDK_def injectScript_def insertBefore_firstScript_def
        op_outcome_def Let_def)
  have w1: "waiting k cfg s1"
    using assms doc
    by (simp add: k_def s1_def waiting_def loadSDK_def injectScript_def Let_def)
  have later: "op_outcome (run evs s1) k = Pending
           \<and> (\<not> isReady (drain (run evs s1)) \<longrightarrow>
                op_outcome (step (ScriptLoad k) (run evs s1)) k = Failed MissingIdentity
                \<and> error (step (ScriptLoad k) (run evs s1)) = Some MissingIdentity
                \<and> \<not> isReady (step (ScriptLoad k) (run evs s1))
                \<and> document (step (ScriptLoad k) (run evs s1)) = document (run evs s1))
           \<and> (isReady (drain (run evs s1)) \<longrightarrow>
                op_outcome (step (ScriptLoad k) (run evs s1)) k = Fulfilled
                \<and> isReady (step (ScriptLoad k) (run evs s1)))
           \<and> op_outcome (step (ScriptError k) (run evs s1)) k
                = Failed (ScriptLoadError (el_src (sdk_script cfg)))
           \<and> error (step (ScriptError k) (run evs s1))
                = Some (ScriptLoadError (el_src (sdk_script cfg)))"
    if evs: "ScriptLoad k \<notin> set evs \<and> ScriptError k \<notin> set evs" for evs
  proof -
    let ?u = "run evs s1"
    have "waiting k cfg ?u"
      using evs w1 by (simp add: waiting_run)
    then have st: "stage ?u k = InjectPending cfg"
      by (simp add: waiting_def)
    have doc_u: "document (drain ?u) = document ?u"
      by (simp add: drain_outside)
    show ?thesis
      using load_event_cases [OF st] assms(1) st doc_u
      by (auto simp: op_outcome_def loadSDK_catch_def)
  qed
  show ?thesis
    unfolding Let_def k_def [symmetric] s1_def [symmetric] using call later by blast
qed

text \<open>
  Instances: the call in a fresh page, followed by the load event; and the call made after
  an earlier load was reset while its script was still loading, where that earlier
  operation makes the loader ready before the second script has loaded.
\<close>

theorem missing_app_id_rejects_after_injection_witness:
  "document (snd (loadSDK
       (useFacebookSDK False \<lparr>opt_appId = None, opt_version = None, opt_xfbml = None,
          opt_cookie = None, opt_debug = None\<rparr>)
       (initial_state [\<lparr>el_id = ''app'', el_src = ''/src/main.ts'', el_async = False,
          el_defer = False, el_crossOrigin = []\<rparr>])))
     = [\<lparr>el_id = ''facebook-jssdk'', el_src = ''https://connect.facebook.net/en_US/sdk.js'',
          el_async = True, el_defer = True, el_crossOrigin = ''anonymous''\<rparr>,
        \<lparr>el_id = ''app'', el_src = ''/src/main.ts'', el_async = False,
          el_defer = False, el_crossOrigin = []\<rparr>]
   \<and> op_outcome (snd (loadSDK
       (useFacebookSDK False \<lparr>opt_appId = None, opt_version = None, opt_xfbml = None,
          opt_cookie = None, opt_debug = None\<rparr>)
       (initial_state [\<lparr>el_id = ''app'', el_src = ''/src/main.ts'', el_async = False,
          el_defer = False, el_crossOrigin = []\<rparr>]))) 0
     = Pending
   \<and> op_outcome (step (ScriptLoad 0) (snd (loadSDK
       (useFacebookSDK False \<lparr>opt_appId = None, opt_version = None, opt_xfbml = None,
          opt_cookie = None, opt_debug = None\<rparr>)
       (initial_state [\<lparr>el_id = ''app'', el_src = ''/src/main.ts'', el_async = False,
          el_defer = False, el_crossOrigin = []\<rparr>])))) 0
     = Failed MissingIdentity
   \<and> fst (loadSDK
       (useFacebookSDK False \<lparr>opt_appId = None, opt_version = None, opt_xfbml = None,
          opt_cookie = None, opt_debug = None\<rparr>)
       (run [CallLoadSDK (useFacebookSDK False \<lparr>opt_appId = Some ''1234'', opt_version = None,
                opt_xfbml = None, opt_cookie = None, opt_debug = None\<rparr>),
             CallResetSDK]
          (initial_state [\<lparr>el_id = ''app'', el_src = ''/src/main.ts'', el_async = False,
             el_defer = False, el_crossOrigin = []\<rparr>])))
     = Follows 1
   \<and> op_outcome
       (step (ScriptLoad 1)
         (run [SdkDefinesFB \<lparr>fb_ident = 7, init_throws = None\<rparr>, ScriptLoad 0]
           (snd (loadSDK
             (useFacebookSDK False \<lparr>opt_appId = None, opt_version = None, opt_xfbml = None,
                opt_cookie = None, opt_debug = None\<rparr>)
             (run [CallLoadSDK (useFacebookSDK False \<lparr>opt_appId = Some ''1234'',
                      opt_version = None, opt_xfbml = None, opt_cookie = None,
                      opt_debug = None\<rparr>),
                   CallResetSDK]
                (initial_state [\<lparr>el_id = ''app'', el_src = ''/src/main.ts'', el_async = False,
                   el_defer = False, el_crossOrigin = []\<rparr>])))))) 1
     = Fulfilled"
proof -
  let ?c = "useFacebookSDK False \<lparr>opt_appId = None, opt_version = None, opt_xfbml = None,
      opt_cookie = None, opt_debug = None\<rparr>"
  let ?s = "initial_state [\<lparr>el_id = ''app'', el_src = ''/src/main.ts'', el_async = False,
      el_defer = False, el_crossOrigin = []\<rparr>]"
  let ?r = "run [CallLoadSDK (useFacebookSDK False \<lparr>opt_appId = Some ''1234'',
        opt_version = None, opt_xfbml = None, opt_cookie = None, opt_debug = None\<rparr>),
      CallResetSDK] ?s"
  let ?evs = "[SdkDefinesFB \<lparr>fb_ident = 7, init_throws = None\<rparr>, ScriptLoad 0]"
  have fresh: "appId ?c = []" "\<not> isReady ?s" "loadPromise ?s = None"
    "getElementById SDK_SCRIPT_ID (document ?s) = None" "document ?s \<noteq> []"
    by (simp_all add: eval_defs)
  have reset: "\<not> isReady ?r" "loadPromise ?r = None"
    "getElementById SDK_SCRIPT_ID (document ?r) = None" "document ?r \<noteq> []"
    by (simp_all add: eval_defs)
  have k0: "next_op ?s = 0" and k1: "next_op ?r = 1"
    by (simp_all add: eval_defs)
  note a = missing_app_id_rejects_after_injection [OF fresh, unfolded Let_def k0]
  note b = missing_app_id_rejects_after_injection [OF fresh(1) reset, unfolded Let_def k1]
  have a_doc: "document (snd (loadSDK ?c ?s)) = sdk_script ?c # document ?s"
    and a_pending: "op_outcome (snd (loadSDK ?c ?s)) 0 = Pending"
    and a_later: "\<forall>evs. ScriptLoad 0 \<notin> set evs \<and> ScriptError 0 \<notin> set evs \<longrightarrow>
      (\<not> isReady (drain (run evs (snd (loadSDK ?c ?s)))) \<longrightarrow>
         op_outcome (step (ScriptLoad 0) (run evs (snd (loadSDK ?c ?s)))) 0
           = Failed MissingIdentity)"
    using a by blast+
  have a_not_ready: "\<not> isReady (drain (run [] (snd (loadSDK ?c ?s))))"
    by (simp add: eval_defs)
  have a_rejected:
    "op_outcome (step (ScriptLoad 0) (run [] (snd (loadSDK ?c ?s)))) 0 = Failed MissingIdentity"
    using a_later [rule_format, of "[]"] a_not_ready by (simp del: run.simps step.simps)
  have b_ret: "fst (loadSDK ?c ?r) = Follows 1"
    and b_later: "\<forall>evs. ScriptLoad 1 \<notin> set evs \<and> ScriptError 1 \<notin> set evs \<longrightarrow>
      (isReady (drain (run evs (snd (loadSDK ?c ?r)))) \<longrightarrow>
         op_outcome (step (ScriptLoad 1) (run evs (snd (loadSDK ?c ?r)))) 1 = Fulfilled)"
    using b by blast+
  have b_ready: "isReady (drain (run ?evs (snd (loadSDK ?c ?r))))"
    by (simp add: eval_defs)
  have b_fulfilled:
    "op_outcome (step (ScriptLoad 1) (run ?evs (snd (loadSDK ?c ?r)))) 1 = Fulfilled"
    using b_later [rule_format, of ?evs] b_ready by (simp del: run.simps step.simps)
  have "document (snd (loadSDK ?c ?s)) = sdk_script ?c # document ?s
    \<and> op_outcome (snd (loadSDK ?c ?s)) 0 = Pending
    \<and> op_outcome (step (ScriptLoad 0) (snd (loadSDK ?c ?s))) 0 = Failed MissingIdentity
    \<and> fst (loadSDK ?c ?r) = Follows 1
    \<and> op_outcome (step (ScriptLoad 1) (run ?evs (snd (loadSDK ?c ?r)))) 1 = Fulfilled"
    using a_doc a_pending a_rejected b_ret b_fulfilled by simp
  then show ?thesis
    by (simp add: sdk_script_def SDK_SCRIPT_ID_def SDK_URL_def useFacebookSDK_def
        initial_state_def)
qed

text \<open>
  Claim C10 as stated fails when the inserted script does not load: the call is rejected
  with the script-load error, and the App ID is never looked at.
\<close>

theorem script_error_without_app_id_counterexample:
  "op_outcome
     (run [CallLoadSDK (useFacebookSDK False \<lparr>opt_appId = None, opt_version = None,
              opt_xfbml = None, opt_cookie = None, opt_debug = None\<rparr>),
           ScriptError 0]
        (initial_state [\<lparr>el_id = ''app'', el_src = ''/src/main.ts'', el_async = False,
           el_defer = False, el_crossOrigin = []\<rparr>])) 0
     = Failed (ScriptLoadError ''https://connect.facebook.net/en_US/sdk.js'')
   \<and> error
     (run [CallLoadSDK (useFacebookSDK False \<lparr>opt_appId = None, opt_version = None,
              opt_xfbml = None, opt_cookie = None, opt_debug = None\<rparr>),
           ScriptError 0]
        (initial_state [\<lparr>el_id = ''app'', el_src = ''/src/main.ts'', el_async = False,
           el_defer = False, el_crossOrigin = []\<rparr>]))
     = Some (ScriptLoadError ''https://connect.facebook.net/en_US/sdk.js'')
   \<and> fst (loadSDK (useFacebookSDK False \<lparr>opt_appId = None, opt_version = None,
              opt_xfbml = None, opt_cookie = None, opt_debug = None\<rparr>)
        (initial_state [\<lparr>el_id = ''app'', el_src = ''/src/main.ts'', el_async = False,
           el_defer = False, el_crossOrigin = []\<rparr>]))
     = Follows 0"
  by (simp add: eval_defs SDK_URL_def)

subsection \<open>Timeout and a late readiness hook\<close>

lemma rfg_frame [simp]:
  "rejected_for_good k e (s\<lparr>micro := q\<rparr>) = rejected_for_good k e s"
  "rejected_for_good k e (s\<lparr>window_FB := w\<rparr>) = rejected_for_good k e s"
  "rejected_for_good k e (s\<lparr>effects := ef\<rparr>) = rejected_for_good k e s"
  by (simp_all add: rejected_for_good_def)

lemma rfg_continue: "rejected_for_good k e s \<Longrightarrow> rejected_for_good k e (continue_op j s)"
  by (cases "j = k")
    (auto simp: rejected_for_good_def continue_op_def initSDK_def loadSDK_catch_def
      finalise_def split: stage.splits option.splits)

lemma rfg_drain: "rejected_for_good k e s \<Longrightarrow> rejected_for_good k e (drain s)"
  by (rule drain_preserves [where P = "rejected_for_good k e"]) (simp_all add: rfg_continue)

lemma rfg_loadSDK: "rejected_for_good k e s \<Longrightarrow> rejected_for_good k e (snd (loadSDK cfg s))"
  by (auto simp: rejected_for_good_def loadSDK_def injectScript_def Let_def split: option.splits)

lemma rfg_reset: "rejected_for_good k e s \<Longrightarrow> rejected_for_good k e (resetSDK s)"
  by (simp add: rejected_for_good_def resetSDK_def)

lemma rfg_onload: "rejected_for_good k e s \<Longrightarrow> rejected_for_good k e (script_onload j s)"
  by (auto simp: rejected_for_good_def script_onload_def split: stage.splits)

lemma rfg_onerror: "rejected_for_good k e s \<Longrightarrow> rejected_for_good k e (script_onerror j s)"
  by (auto simp: rejected_for_good_def script_onerror_def split: stage.splits)

lemma rfg_hook_settle: "rejected_for_good k e s \<Longrightarrow> rejected_for_good k e (hook_settle j r s)"
  by (auto simp: rejected_for_good_def hook_settle_def settle_init_def)

lemma rfg_timeout: "rejected_for_good k e s \<Longrightarrow> rejected_for_good k e (timeout_fires j s)"
  by (auto simp: rejected_for_good_def timeout_fires_def settle_init_def Let_def)

lemma rfg_run_hook: "rejected_for_good k e s \<Longrightarrow> rejected_for_good k e (run_hook h s)"
proof (induction h arbitrary: s)
  case NoHook
  then show ?case by simp
next
  case (Foreign n)
  then show ?case by simp
next
  case (Installed j p previousInit)
  let ?s1 = "run_hook previousInit s"
  have s1: "rejected_for_good k e ?s1"
    using Installed by simp
  then have "rejected_for_good k e (finalise (?s1\<lparr>effects := effects ?s1 @ [FBInit p]\<rparr>))"
    by (simp add: rejected_for_good_def finalise_def)
  then show ?case
    using s1 by (simp add: Let_def rfg_hook_settle split: option.splits)
qed

lemma rfg_step: "rejected_for_good k e s \<Longrightarrow> rejected_for_good k e (step ev s)"
  by (cases ev)
    (simp_all add: rfg_loadSDK rfg_reset rfg_drain rfg_onload rfg_onerror rfg_run_hook
      rfg_timeout)

lemma rfg_run: "rejected_for_good k e s \<Longrightarrow> rejected_for_good k e (run evs s)"
  by (induction evs arbitrary: s) (simp_all add: rfg_step)

lemma late_hook:
  assumes "rejected_for_good k e s" and "window_FB s = Some fb" and "init_throws fb = None"
  shows "FB (run_hook (Installed k p previousInit) s) = Some fb
    \<and> isReady (run_hook (Installed k p previousInit) s)
    \<and> error (run_hook (Installed k p previousInit) s) = None
    \<and> op_outcome (run_hook (Installed k p previousInit) s) k = Failed e"
proof -
  let ?s1 = "run_hook previousInit s"
  have "rejected_for_good k e ?s1"
    using assms(1) by (rule rfg_run_hook)
  moreover have "window_FB ?s1 = Some fb"
    using assms(2) by (simp add: run_hook_window_FB)
  ultimately show ?thesis
    using assms(3)
    by (simp add: Let_def hook_settle_def finalise_def rejected_for_good_def op_outcome_def)
qed

lemma timeout_step:
  assumes "k < next_op s" and "stage s k = InitPending" and "\<not> settled s k" and "timer s k"
    and "micro s = []"
  shows "step (TimerFires k) s =
     s\<lparr>timer := (timer s)(k := False), settled := (settled s)(k := True),
       isLoading := False, isReady := False, error := Some InitTimeout, loadPromise := None,
       stage := (stage s)(k := Rejected InitTimeout), micro := []\<rparr>"
  using assms
  by (simp add: drain_Nil timeout_fires_def settle_init_def Let_def
      drain.simps [of "_\<lparr>micro := _\<rparr>"] continue_op_def loadSDK_catch_def)

text \<open>
  Claim C5. Let operation \<open>k\<close> wait for the readiness hook with its timer armed (the ten
  seconds are not modelled: the timer fires as an event). When the timer fires first, the
  operation, and with it the promise of every caller of \<^verbatim>\<open>loadSDK\<close> that follows it, is
  rejected with the timeout error, which is stored, and the loader is neither ready nor
  loading; whatever happens afterwards, the operation stays rejected with that error. Yet
  whenever the hook installed for operation \<open>k\<close> is called later with the SDK ready
  (\<^verbatim>\<open>window.FB\<close> defined and \<^verbatim>\<open>FB.init\<close> returning), the call stores the handle, sets the ready
  flag and clears the error, while the operation remains rejected.
\<close>

theorem timeout_rejects_and_late_hook_mutates:
  assumes "k < next_op s" and "stage s k = InitPending" and "\<not> settled s k" and "timer s k"
    and "micro s = []"
  shows "let s1 = step (TimerFires k) s in
     op_outcome s1 k = Failed InitTimeout
     \<and> returned_outcome s1 (Follows k) = Failed InitTimeout
     \<and> error s1 = Some InitTimeout \<and> \<not> isReady s1 \<and> \<not> isLoading s1
     \<and> (\<forall>evs. op_outcome (run evs s1) k = Failed InitTimeout)
     \<and> (\<forall>evs p previousInit fb.
          window_FB (run evs s1) = Some fb \<and> init_throws fb = None \<longrightarrow>
          (let s3 = run_hook (Installed k p previousInit) (run evs s1) in
             FB s3 = Some fb \<and> isReady s3 \<and> error s3 = None
             \<and> op_outcome s3 k = Failed InitTimeout))"
proof -
  define s1 where "s1 = step (TimerFires k) s"
  have eq: "s1 = s\<lparr>timer := (timer s)(k := False), settled := (settled s)(k := True),
       isLoading := False, isReady := False, error := Some InitTimeout, loadPromise := None,
       stage := (stage s)(k := Rejected InitTimeout), micro := []\<rparr>"
    unfolding s1_def using assms by (rule timeout_step)
  have now: "op_outcome s1 k = Failed InitTimeout
     \<and> returned_outcome s1 (Follows k) = Failed InitTimeout
     \<and> error s1 = Some InitTimeout \<and> \<not> isReady s1 \<and> \<not> isLoading s1"
    by (simp add: eq op_outcome_def returned_outcome_def)
  have "rejected_for_good k InitTimeout s1"
    using assms(1) by (simp add: eq rejected_for_good_def)
  then have later: "rejected_for_good k InitTimeout (run evs s1)" for evs
    by (rule rfg_run)
  have never: "op_outcome (run evs s1) k = Failed InitTimeout" for evs
    using later [of evs] by (simp add: rejected_for_good_def op_outcome_def)
  have hook: "window_FB (run evs s1) = Some fb \<and> init_throws fb = None \<longrightarrow>
      FB (run_hook (Installed k p previousInit) (run evs s1)) = Some fb
      \<and> isReady (run_hook (Installed k p previousInit) (run evs s1))
      \<and> error (run_hook (Installed k p previousInit) (run evs s1)) = None
      \<and> op_outcome (run_hook (Installed k p previousInit) (run evs s1)) k = Failed InitTimeout"
    for evs p previousInit fb
    using late_hook [OF later [of evs], of fb p previousInit] by blast
  show ?thesis
    unfolding Let_def s1_def [symmetric] using now never hook by blast
qed

text \<open>
  An instance: the script loads, the timer fires, and only then does the vendor script
  define \<^verbatim>\<open>window.FB\<close> and call the hook. The loader ends ready although the one load
  operation is rejected.
\<close>

theorem timeout_rejects_and_late_hook_mutates_witness:
  "op_outcome
     (run [CallLoadSDK (useFacebookSDK True \<lparr>opt_appId = Some ''1234'',
              opt_version = Some ''v25.0'', opt_xfbml = Some False, opt_cookie = Some False,
              opt_debug = Some True\<rparr>),
           ScriptLoad 0, TimerFires 0]
        (initial_state [\<lparr>el_id = ''app'', el_src = ''/src/main.ts'', el_async = False,
           el_defer = False, el_crossOrigin = []\<rparr>])) 0
     = Failed InitTimeout
   \<and> error
     (run [CallLoadSDK (useFacebookSDK True \<lparr>opt_appId = Some ''1234'',
              opt_version = Some ''v25.0'', opt_xfbml = Some False, opt_cookie = Some False,
              opt_debug = Some True\<rparr>),
           ScriptLoad 0, TimerFires 0]
        (initial_state [\<lparr>el_id = ''app'', el_src = ''/src/main.ts'', el_async = False,
           el_defer = False, el_crossOrigin = []\<rparr>]))
     = Some InitTimeout
   \<and> isReady
     (run [CallLoadSDK (useFacebookSDK True \<lparr>opt_appId = Some ''1234'',
              opt_version = Some ''v25.0'', opt_xfbml = Some False, opt_cookie = Some False,
              opt_debug = Some True\<rparr>),
           ScriptLoad 0, TimerFires 0, SdkDefinesFB \<lparr>fb_ident = 7, init_throws = None\<rparr>,
           FbAsyncInit]
        (initial_state [\<lparr>el_id = ''app'', el_src = ''/src/main.ts'', el_async = False,
           el_defer = False, el_crossOrigin = []\<rparr>]))
   \<and> error
     (run [CallLoadSDK (useFacebookSDK True \<lparr>opt_appId = Some ''1234'',
              opt_version = Some ''v25.0'', opt_xfbml = Some False, opt_cookie = Some False,
              opt_debug = Some True\<rparr>),
           ScriptLoad 0, TimerFires 0, SdkDefinesFB \<lparr>fb_ident = 7, init_throws = None\<rparr>,
           FbAsyncInit]
        (initial_state [\<lparr>el_id = ''app'', el_src = ''/src/main.ts'', el_async = False,
           el_defer = False, el_crossOrigin = []\<rparr>]))
     = None
   \<and> op_outcome
     (run [CallLoadSDK (useFacebookSDK True \<lparr>opt_appId = Some ''1234'',
              opt_version = Some ''v25.0'', opt_xfbml = Some False, opt_cookie = Some False,
              opt_debug = Some True\<rparr>),
           ScriptLoad 0, TimerFires 0, SdkDefinesFB \<lparr>fb_ident = 7, init_throws = None\<rparr>,
           FbAsyncInit]
        (initial_state [\<lparr>el_id = ''app'', el_src = ''/src/main.ts'', el_async = False,
           el_defer = False, el_crossOrigin = []\<rparr>])) 0
     = Failed InitTimeout"
  using timeout_rejects_and_late_hook_mutates
    [of 0 "run [CallLoadSDK (useFacebookSDK True \<lparr>opt_appId = Some ''1234'',
              opt_version = Some ''v25.0'', opt_xfbml = Some False, opt_cookie = Some False,
              opt_debug = Some True\<rparr>),
           ScriptLoad 0]
        (initial_state [\<lparr>el_id = ''app'', el_src = ''/src/main.ts'', el_async = False,
           el_defer = False, el_crossOrigin = []\<rparr>])"]
  by (simp add: eval_defs)

end
